theory Spec2Isabelle
  imports Main "HOL-Library.Word" "HOL-Library.Monad_Syntax"
begin

section \<open>Common C vocabulary\<close>

type_synonym uint8_t = "8 word"
type_synonym uint16_t = "16 word"
type_synonym uint32_t = "32 word"

text \<open>
  A pointer argument is either the null pointer or points to an object whose current
  content is carried along; a function that writes through a pointer returns the new
  content. Nothing is known of \<open>deref NULL\<close>.
\<close>

datatype 'a ptr = NULL | Ptr (deref: 'a)

text \<open>
  Accesses to arrays supplied by a caller are checked against the array's extent: C leaves
  a read or write outside the array undefined, and the model returns \<open>None\<close> there.
\<close>

definition array_load :: "'a list \<Rightarrow> nat \<Rightarrow> 'a option" where
  "array_load a i = (if i < length a then Some (a ! i) else None)"

definition array_store :: "'a list \<Rightarrow> nat \<Rightarrow> 'a \<Rightarrow> 'a list option" where
  "array_store a i v = (if i < length a then Some (a[i := v]) else None)"

definition memcpy :: "'a list \<Rightarrow> nat \<Rightarrow> 'a list \<Rightarrow> nat \<Rightarrow> 'a list option" where
  "memcpy dst off src n =
     (if n \<le> length src \<and> off + n \<le> length dst
      then Some (take off dst @ take n src @ drop (off + n) dst)
      else None)"

definition STX_BYTE :: uint8_t where "STX_BYTE = 0x02"
definition ETX_BYTE :: uint8_t where "ETX_BYTE = 0x03"
definition ACK_BYTE :: uint8_t where "ACK_BYTE = 0x06"
definition NACK_BYTE :: uint8_t where "NACK_BYTE = 0x15"
definition MAX_DATA_SIZE :: nat where "MAX_DATA_SIZE = 256"
definition TIMEOUT_MS :: uint32_t where "TIMEOUT_MS = 1000"
definition MAX_RETRIES :: uint8_t where "MAX_RETRIES = 3"

definition PROTOCOL_SUCCESS :: int where "PROTOCOL_SUCCESS = 0"
definition PROTOCOL_ERROR :: int where "PROTOCOL_ERROR = - 1"
definition PROTOCOL_WAITING :: int where "PROTOCOL_WAITING = - 2"
definition PROTOCOL_TIMEOUT :: int where "PROTOCOL_TIMEOUT = - 2"
definition PROTOCOL_INVALID_PARAM :: int where "PROTOCOL_INVALID_PARAM = - 3"

section \<open>The frame encoder (the same text in t3 and t4)\<close>

text \<open>
  \<^verbatim>\<open>for (uint8_t i = 0; i < qtd; i++) checksum += dados[i];\<close>
  The counter and the sum are 8-bit, the sum wraps.
\<close>

function checksum_loop :: "uint8_t list \<Rightarrow> uint8_t \<Rightarrow> uint8_t \<Rightarrow> uint8_t \<Rightarrow> uint8_t option" where
  "checksum_loop dados qtd i checksum =
     (if i < qtd
      then (case array_load dados (unat i) of
              None \<Rightarrow> None
            | Some d \<Rightarrow> checksum_loop dados qtd (i + 1) (checksum + d))
      else Some checksum)"
  by pat_completeness auto
termination
proof (relation "measure (\<lambda>(dados, qtd, i, checksum). unat qtd - unat i)")
  show "wf (measure (\<lambda>(dados, qtd, i, checksum). unat qtd - unat i))"
    by simp
next
  fix dados :: "uint8_t list" and qtd i checksum x2 :: uint8_t
  assume lt: "i < qtd"
  then have "unat (i + 1) = Suc (unat i)"
    by unat_arith
  moreover from lt have "unat i < unat qtd"
    by unat_arith
  ultimately show "((dados, qtd, i + 1, checksum + x2), (dados, qtd, i, checksum))
      \<in> measure (\<lambda>(dados, qtd, i, checksum). unat qtd - unat i)"
    by simp
qed

definition protocol_calculate_checksum :: "uint8_t list ptr \<Rightarrow> uint8_t \<Rightarrow> uint8_t option" where
  "protocol_calculate_checksum dados qtd =
     (case dados of
        NULL \<Rightarrow> Some 0
      | Ptr d \<Rightarrow> if qtd = 0 then Some 0 else checksum_loop d qtd 0 0)"

text \<open>
  \<open>protocol_create_message\<close> returns its code together with the buffer and the value of
  \<open>*buffer_size\<close> after the call. \<open>msg_size\<close> is a \<open>uint8_t\<close>, so \<open>5 + qtd\<close>
  is reduced modulo 256 when it is stored; the indices \<open>2 + qtd\<close> and \<open>3 + qtd\<close> are
  computed in \<open>int\<close> and do not wrap.
\<close>

definition protocol_create_message ::
  "uint8_t list ptr \<Rightarrow> uint8_t \<Rightarrow> uint8_t list ptr \<Rightarrow> uint8_t ptr
     \<Rightarrow> (int \<times> uint8_t list ptr \<times> uint8_t ptr) option" where
  "protocol_create_message dados qtd buffer buffer_size =
     (case (dados, buffer, buffer_size) of
        (Ptr d, Ptr buf, Ptr bsz) \<Rightarrow>
          if qtd = 0 then Some (PROTOCOL_INVALID_PARAM, buffer, buffer_size)
          else do {
            checksum \<leftarrow> protocol_calculate_checksum dados qtd;
            let msg_size = (5 + qtd :: uint8_t);
            if bsz < msg_size then Some (PROTOCOL_ERROR, buffer, buffer_size)
            else do {
              b0 \<leftarrow> array_store buf 0 STX_BYTE;
              b1 \<leftarrow> array_store b0 1 qtd;
              b2 \<leftarrow> memcpy b1 2 d (unat qtd);
              b3 \<leftarrow> array_store b2 (2 + unat qtd) checksum;
              b4 \<leftarrow> array_store b3 (3 + unat qtd) ETX_BYTE;
              Some (PROTOCOL_SUCCESS, Ptr b4, Ptr msg_size)
            }
          }
      | _ \<Rightarrow> Some (PROTOCOL_INVALID_PARAM, buffer, buffer_size))"

section \<open>t3: the frame parser driven by a table of state functions\<close>

datatype ProtocolStates = ST_STX | ST_QTD | ST_DATA | ST_CHK | ST_ETX

text \<open>The five functions a \<open>StateFunction\<close> pointer can name.\<close>

datatype StateFunction =
  Fn_state_wait_stx | Fn_state_wait_qtd | Fn_state_wait_data | Fn_state_wait_chk | Fn_state_wait_etx

record ProtocolHandler =
  current_state :: ProtocolStates
  state_functions :: "ProtocolStates \<Rightarrow> StateFunction ptr"
  qtd_dados :: uint8_t
  dados :: "uint8_t list"
  dados_count :: uint8_t
  checksum_recv :: uint8_t
  checksum_calc :: uint8_t
  message_ready :: bool
  last_result :: int

definition state_wait_stx :: "ProtocolHandler \<Rightarrow> uint8_t \<Rightarrow> int \<times> ProtocolHandler" where
  "state_wait_stx handler byte =
     (if byte = STX_BYTE
      then (PROTOCOL_WAITING,
            handler\<lparr>current_state := ST_QTD, dados_count := 0, checksum_calc := 0,
                    message_ready := False\<rparr>)
      else (PROTOCOL_WAITING, handler))"

definition state_wait_qtd :: "ProtocolHandler \<Rightarrow> uint8_t \<Rightarrow> int \<times> ProtocolHandler" where
  "state_wait_qtd handler byte =
     (if byte > 0
      then (PROTOCOL_WAITING, handler\<lparr>qtd_dados := byte, current_state := ST_DATA\<rparr>)
      else (PROTOCOL_WAITING, handler\<lparr>current_state := ST_STX\<rparr>))"

text \<open>
  \<open>dados\<close> has \<open>MAX_DATA_SIZE\<close> cells and is indexed by the 8-bit \<open>dados_count\<close>.
\<close>

definition state_wait_data :: "ProtocolHandler \<Rightarrow> uint8_t \<Rightarrow> int \<times> ProtocolHandler" where
  "state_wait_data handler byte =
     (let h1 = handler\<lparr>dados := (dados handler)[unat (dados_count handler) := byte]\<rparr>;
          h2 = h1\<lparr>checksum_calc := checksum_calc h1 + byte\<rparr>;
          h3 = h2\<lparr>dados_count := dados_count h2 + 1\<rparr>
      in if dados_count h3 \<ge> qtd_dados h3
         then (PROTOCOL_WAITING, h3\<lparr>current_state := ST_CHK\<rparr>)
         else (PROTOCOL_WAITING, h3))"

definition state_wait_chk :: "ProtocolHandler \<Rightarrow> uint8_t \<Rightarrow> int \<times> ProtocolHandler" where
  "state_wait_chk handler byte =
     (PROTOCOL_WAITING, handler\<lparr>checksum_recv := byte, current_state := ST_ETX\<rparr>)"

definition state_wait_etx :: "ProtocolHandler \<Rightarrow> uint8_t \<Rightarrow> int \<times> ProtocolHandler" where
  "state_wait_etx handler byte =
     (if byte = ETX_BYTE \<and> checksum_calc handler = checksum_recv handler
      then (PROTOCOL_SUCCESS, handler\<lparr>message_ready := True, current_state := ST_STX\<rparr>)
      else (PROTOCOL_ERROR, handler\<lparr>current_state := ST_STX\<rparr>))"

text \<open>Calling through a \<open>StateFunction\<close> pointer.\<close>

fun call_state_function :: "StateFunction \<Rightarrow> ProtocolHandler \<Rightarrow> uint8_t \<Rightarrow> int \<times> ProtocolHandler" where
  "call_state_function Fn_state_wait_stx = state_wait_stx"
| "call_state_function Fn_state_wait_qtd = state_wait_qtd"
| "call_state_function Fn_state_wait_data = state_wait_data"
| "call_state_function Fn_state_wait_chk = state_wait_chk"
| "call_state_function Fn_state_wait_etx = state_wait_etx"

definition protocol_init :: "ProtocolHandler ptr \<Rightarrow> ProtocolHandler ptr" where
  "protocol_init handler =
     (case handler of
        NULL \<Rightarrow> NULL
      | Ptr h \<Rightarrow>
          Ptr (h\<lparr>state_functions :=
                   (state_functions h)
                     (ST_STX := Ptr Fn_state_wait_stx,
                      ST_QTD := Ptr Fn_state_wait_qtd,
                      ST_DATA := Ptr Fn_state_wait_data,
                      ST_CHK := Ptr Fn_state_wait_chk,
                      ST_ETX := Ptr Fn_state_wait_etx),
                 current_state := ST_STX,
                 qtd_dados := 0,
                 dados_count := 0,
                 checksum_recv := 0,
                 checksum_calc := 0,
                 message_ready := False,
                 last_result := PROTOCOL_WAITING,
                 dados := replicate MAX_DATA_SIZE 0\<rparr>))"

definition protocol_reset :: "ProtocolHandler ptr \<Rightarrow> ProtocolHandler ptr" where
  "protocol_reset handler =
     (case handler of
        NULL \<Rightarrow> NULL
      | Ptr h \<Rightarrow>
          Ptr (h\<lparr>current_state := ST_STX, dados_count := 0, checksum_calc := 0,
                 message_ready := False, last_result := PROTOCOL_WAITING\<rparr>))"

definition protocol_process_byte :: "ProtocolHandler ptr \<Rightarrow> uint8_t \<Rightarrow> int \<times> ProtocolHandler ptr" where
  "protocol_process_byte handler byte =
     (case handler of
        NULL \<Rightarrow> (PROTOCOL_INVALID_PARAM, NULL)
      | Ptr h \<Rightarrow>
          (case state_functions h (current_state h) of
             Ptr current_function \<Rightarrow>
               (let (r, h') = call_state_function current_function h byte
                in (r, Ptr (h'\<lparr>last_result := r\<rparr>)))
           | NULL \<Rightarrow> (PROTOCOL_ERROR, Ptr h)))"

definition protocol_message_ready :: "ProtocolHandler ptr \<Rightarrow> bool" where
  "protocol_message_ready handler = (case handler of Ptr h \<Rightarrow> message_ready h | NULL \<Rightarrow> False)"

definition protocol_get_data :: "ProtocolHandler ptr \<Rightarrow> uint8_t list ptr" where
  "protocol_get_data handler = (case handler of Ptr h \<Rightarrow> Ptr (dados h) | NULL \<Rightarrow> NULL)"

definition protocol_get_data_count :: "ProtocolHandler ptr \<Rightarrow> uint8_t" where
  "protocol_get_data_count handler = (case handler of Ptr h \<Rightarrow> qtd_dados h | NULL \<Rightarrow> 0)"

text \<open>
  The storage of a handler before \<open>protocol_init\<close> has run, and the way every test of
  the repository drives the parser: one call of \<open>protocol_process_byte\<close> per byte of the
  stream, in order, collecting the return codes.
\<close>

definition blank_handler :: ProtocolHandler where
  "blank_handler =
     \<lparr>current_state = ST_STX, state_functions = (\<lambda>_. NULL), qtd_dados = 0,
      dados = replicate MAX_DATA_SIZE 0, dados_count = 0, checksum_recv = 0,
      checksum_calc = 0, message_ready = False, last_result = 0\<rparr>"

fun process_bytes :: "ProtocolHandler ptr \<Rightarrow> uint8_t list \<Rightarrow> int list \<times> ProtocolHandler ptr" where
  "process_bytes handler [] = ([], handler)"
| "process_bytes handler (b # bs) =
     (let (r, h1) = protocol_process_byte handler b;
          (rs, h2) = process_bytes h1 bs
      in (r # rs, h2))"

section \<open>t4: protothreads, the timer and the simulated channel\<close>

record pt_t =
  lc :: uint16_t

definition PT_WAITING :: int where "PT_WAITING = 0"
definition PT_YIELDED :: int where "PT_YIELDED = 1"
definition PT_EXITED :: int where "PT_EXITED = 2"
definition PT_ENDED :: int where "PT_ENDED = 3"

definition PT_INIT :: "pt_t \<Rightarrow> pt_t" where
  "PT_INIT p = p\<lparr>lc := 0\<rparr>"

record timer_t =
  start_time :: uint32_t
  timeout_ms :: uint32_t
  active :: bool

text \<open>
  The timer functions read the global \<open>system_time_ms\<close>; it is their first argument
  here. The subtraction is 32-bit and wraps.
\<close>

definition timer_set :: "uint32_t \<Rightarrow> timer_t \<Rightarrow> uint32_t \<Rightarrow> timer_t" where
  "timer_set system_time_ms tm ms =
     tm\<lparr>start_time := system_time_ms, timeout_ms := ms, active := True\<rparr>"

definition timer_expired :: "uint32_t \<Rightarrow> timer_t \<Rightarrow> bool" where
  "timer_expired system_time_ms tm =
     (if \<not> active tm then False
      else (system_time_ms - start_time tm) \<ge> timeout_ms tm)"

definition timer_stop :: "timer_t \<Rightarrow> timer_t" where
  "timer_stop tm = tm\<lparr>active := False\<rparr>"

record comm_channel_t =
  tx_buffer :: "uint8_t list"
  rx_buffer :: "uint8_t list"
  tx_size :: uint8_t
  rx_size :: uint8_t
  rx_pos :: uint8_t
  tx_ready :: bool
  rx_ready :: bool
  ack_received :: bool
  ack_value :: uint8_t
  simulate_loss :: bool

text \<open>
  The channel's buffers have \<open>MAX_DATA_SIZE + 10\<close> cells; sizes and positions are
  8-bit, so every index the channel functions use lies inside them.
\<close>

definition channel_send :: "uint8_t list \<Rightarrow> uint8_t \<Rightarrow> comm_channel_t \<Rightarrow> comm_channel_t" where
  "channel_send data sz ch =
     (let ch1 = (if \<not> simulate_loss ch
                 then ch\<lparr>rx_buffer := take (unat sz) data @ drop (unat sz) (rx_buffer ch),
                         rx_size := sz, rx_pos := 0, rx_ready := True\<rparr>
                 else ch)
      in ch1\<lparr>tx_ready := False\<rparr>)"

text \<open>
  \<open>channel_receive_byte\<close> and \<open>channel_ack_received\<close> return \<open>Some b\<close> when the C
  function returns true after storing \<open>b\<close> through its pointer argument, and \<open>None\<close>
  when it returns false and stores nothing.
\<close>

definition channel_receive_byte :: "comm_channel_t \<Rightarrow> uint8_t option \<times> comm_channel_t" where
  "channel_receive_byte ch =
     (if rx_ready ch \<and> rx_pos ch < rx_size ch
      then (let b = rx_buffer ch ! unat (rx_pos ch);
                ch1 = ch\<lparr>rx_pos := rx_pos ch + 1\<rparr>;
                ch2 = (if rx_pos ch1 \<ge> rx_size ch1 then ch1\<lparr>rx_ready := False\<rparr> else ch1)
            in (Some b, ch2))
      else (None, ch))"

definition channel_send_ack :: "uint8_t \<Rightarrow> comm_channel_t \<Rightarrow> comm_channel_t" where
  "channel_send_ack ack_type ch = ch\<lparr>ack_received := True, ack_value := ack_type\<rparr>"

definition channel_ack_received :: "comm_channel_t \<Rightarrow> uint8_t option \<times> comm_channel_t" where
  "channel_ack_received ch =
     (if ack_received ch then (Some (ack_value ch), ch\<lparr>ack_received := False\<rparr>)
      else (None, ch))"

definition channel_reset :: "comm_channel_t \<Rightarrow> comm_channel_t" where
  "channel_reset ch =
     \<lparr>tx_buffer = replicate (MAX_DATA_SIZE + 10) 0, rx_buffer = replicate (MAX_DATA_SIZE + 10) 0,
      tx_size = 0, rx_size = 0, rx_pos = 0, tx_ready = False, rx_ready = False,
      ack_received = False, ack_value = 0, simulate_loss = False\<rparr>"

record transmitter_state_t =
  tx_pt :: pt_t
  timer :: timer_t
  data_to_send :: "uint8_t list ptr"
  data_size :: uint8_t
  message_buffer :: "uint8_t list"
  message_size :: uint8_t
  retry_count :: uint8_t
  transmission_complete :: bool
  tx_result :: int

datatype rx_states = RX_WAIT_STX | RX_WAIT_QTD | RX_WAIT_DATA | RX_WAIT_CHK | RX_WAIT_ETX

record receiver_state_t =
  rx_pt :: pt_t
  rx_data :: "uint8_t list"
  rx_count :: uint8_t
  expected_size :: uint8_t
  rx_checksum_calc :: uint8_t
  rx_checksum_recv :: uint8_t
  state :: rx_states
  message_received :: bool
  rx_result :: int

text \<open>
  The file-scope variables of t4, with the two function-local \<open>static\<close> bytes:
  \<open>tx_ack_value\<close> is \<open>ack_value\<close> of \<open>transmitter_thread\<close> and \<open>incoming_byte\<close>
  belongs to \<open>receiver_thread\<close>.
\<close>

record globals =
  system_time_ms :: uint32_t
  channel :: comm_channel_t
  tx_state :: transmitter_state_t
  rx_state :: receiver_state_t
  tx_ack_value :: uint8_t
  incoming_byte :: uint8_t

definition advance_time :: "uint32_t \<Rightarrow> globals \<Rightarrow> globals" where
  "advance_time ms g = g\<lparr>system_time_ms := system_time_ms g + ms\<rparr>"

text \<open>
  The values of \<open>__LINE__\<close> at the \<open>PT_WAIT_UNTIL\<close> and \<open>PT_YIELD\<close> macros: they are
  the \<open>case\<close> labels of the \<open>switch\<close> that \<open>PT_BEGIN\<close> opens.
\<close>

definition LC_TX_WAIT :: uint16_t where "LC_TX_WAIT = 252"
definition LC_RX_STX :: uint16_t where "LC_RX_STX = 295"
definition LC_RX_QTD :: uint16_t where "LC_RX_QTD = 301"
definition LC_RX_DATA :: uint16_t where "LC_RX_DATA = 314"
definition LC_RX_CHK :: uint16_t where "LC_RX_CHK = 322"
definition LC_RX_ETX :: uint16_t where "LC_RX_ETX = 328"
definition LC_RX_YIELD :: uint16_t where "LC_RX_YIELD = 342"

subsection \<open>The transmitter\<close>

text \<open>
  The places of \<open>transmitter_thread\<close> at which control can be inside the loop: the test
  of the \<open>while\<close>, and the label of its \<open>PT_WAIT_UNTIL\<close>.
\<close>

datatype tx_label = TX_WHILE | TX_WAIT_ACK

definition tx_wait_condition :: "globals \<Rightarrow> bool \<times> globals" where
  "tx_wait_condition g =
     (case channel_ack_received (channel g) of
        (Some a, ch) \<Rightarrow> (True, g\<lparr>channel := ch, tx_ack_value := a\<rparr>)
      | (None, ch) \<Rightarrow> (timer_expired (system_time_ms g) (timer (tx_state g)), g\<lparr>channel := ch\<rparr>))"

definition tx_measure :: "tx_label \<times> globals \<Rightarrow> nat" where
  "tx_measure x =
     (case x of
        (TX_WHILE, g) \<Rightarrow> (if ack_received (channel g) then 4 else 0) + 1
      | (TX_WAIT_ACK, g) \<Rightarrow>
          (if ack_received (channel g) then 4 else 0)
          + (if timer_expired (system_time_ms g) (timer (tx_state g)) then 2 else 0))"

function tx_run :: "tx_label \<Rightarrow> globals \<Rightarrow> int \<times> globals" where
  "tx_run TX_WHILE g =
     (let tx = tx_state g in
      if retry_count tx < MAX_RETRIES
      then tx_run TX_WAIT_ACK
             (g\<lparr>channel := channel_send (message_buffer tx) (message_size tx) (channel g),
                tx_state := tx\<lparr>timer := timer_set (system_time_ms g) (timer tx) TIMEOUT_MS\<rparr>\<rparr>)
      else (PT_ENDED,
            g\<lparr>tx_state := tx\<lparr>tx_result := PROTOCOL_TIMEOUT, transmission_complete := True,
                               tx_pt := (tx_pt tx)\<lparr>lc := 0\<rparr>\<rparr>\<rparr>))"
| "tx_run TX_WAIT_ACK g =
     (let g1 = g\<lparr>tx_state := (tx_state g)\<lparr>tx_pt := (tx_pt (tx_state g))\<lparr>lc := LC_TX_WAIT\<rparr>\<rparr>\<rparr>;
          (cond, g2) = tx_wait_condition g1;
          tx = tx_state g2
      in if \<not> cond then (PT_WAITING, g2)
         else if timer_expired (system_time_ms g2) (timer tx)
         then tx_run TX_WHILE (g2\<lparr>tx_state := tx\<lparr>retry_count := retry_count tx + 1\<rparr>\<rparr>)
         else if tx_ack_value g2 = ACK_BYTE
         then (PT_EXITED,
               g2\<lparr>tx_state := tx\<lparr>transmission_complete := True, tx_result := PROTOCOL_SUCCESS,
                                   tx_pt := PT_INIT (tx_pt tx)\<rparr>\<rparr>)
         else if tx_ack_value g2 = NACK_BYTE
         then tx_run TX_WHILE (g2\<lparr>tx_state := tx\<lparr>retry_count := retry_count tx + 1\<rparr>\<rparr>)
         else tx_run TX_WHILE g2)"
  by pat_completeness auto
termination
proof (relation "measure tx_measure")
  show "wf (measure tx_measure)"
    by simp
qed (auto simp: tx_measure_def tx_wait_condition_def channel_ack_received_def channel_send_def
       timer_expired_def timer_set_def TIMEOUT_MS_def Let_def split: if_splits)

text \<open>
  \<open>transmitter_thread\<close> is always called on \<open>&tx_state\<close>. \<open>PT_BEGIN\<close> dispatches on
  \<open>lc\<close>: 0 starts the body, the label of the wait resumes there, and any other value
  matches no \<open>case\<close>, so that control leaves the \<open>switch\<close> and reaches \<open>PT_END\<close>.
  The size handed to the encoder is \<open>(uint8_t)sizeof(tx->message_buffer)\<close>.
  The result is \<open>None\<close> when the encoder reads outside the array \<open>data_to_send\<close>
  points to.
\<close>

definition transmitter_thread :: "globals \<Rightarrow> (int \<times> globals) option" where
  "transmitter_thread g =
     (let tx = tx_state g in
      if lc (tx_pt tx) = 0
      then (let tx1 = tx\<lparr>retry_count := 0, transmission_complete := False,
                           message_size := of_nat (MAX_DATA_SIZE + 10)\<rparr>
            in case protocol_create_message (data_to_send tx1) (data_size tx1)
                      (Ptr (message_buffer tx1)) (Ptr (message_size tx1)) of
                 Some (r, Ptr buf, Ptr sz) \<Rightarrow>
                   (let tx2 = tx1\<lparr>message_buffer := buf, message_size := sz, tx_result := r\<rparr>
                    in if r \<noteq> PROTOCOL_SUCCESS
                       then Some (PT_EXITED, g\<lparr>tx_state := tx2\<lparr>tx_pt := PT_INIT (tx_pt tx2)\<rparr>\<rparr>)
                       else Some (tx_run TX_WHILE (g\<lparr>tx_state := tx2\<rparr>)))
               | _ \<Rightarrow> None)
      else if lc (tx_pt tx) = LC_TX_WAIT then Some (tx_run TX_WAIT_ACK g)
      else Some (PT_ENDED, g\<lparr>tx_state := tx\<lparr>tx_pt := (tx_pt tx)\<lparr>lc := 0\<rparr>\<rparr>\<rparr>))"

subsection \<open>The receiver\<close>

text \<open>
  The places of \<open>receiver_thread\<close>: the top of \<open>while (1)\<close>, the test of the \<open>for\<close>,
  and the labels of the five waits. \<open>PT_YIELD\<close> puts its label before its own
  \<open>return\<close>, so a thread resumed at that label returns \<open>PT_YIELDED\<close> again at once.
\<close>

datatype rx_label = RX_WHILE | RX_AT_STX | RX_AT_QTD | RX_FOR | RX_AT_DATA | RX_AT_CHK | RX_AT_ETX

definition rx_receive :: "uint16_t \<Rightarrow> globals \<Rightarrow> bool \<times> globals" where
  "rx_receive label g =
     (let g1 = g\<lparr>rx_state := (rx_state g)\<lparr>rx_pt := (rx_pt (rx_state g))\<lparr>lc := label\<rparr>\<rparr>\<rparr>
      in case channel_receive_byte (channel g1) of
           (Some b, ch) \<Rightarrow> (True, g1\<lparr>channel := ch, incoming_byte := b\<rparr>)
         | (None, ch) \<Rightarrow> (False, g1\<lparr>channel := ch\<rparr>))"

definition rx_available :: "comm_channel_t \<Rightarrow> nat" where
  "rx_available ch =
     (if rx_ready ch \<and> rx_pos ch < rx_size ch then unat (rx_size ch) - unat (rx_pos ch) else 0)"

fun rx_rank :: "rx_label \<Rightarrow> nat" where
  "rx_rank RX_WHILE = 6"
| "rx_rank RX_AT_STX = 5"
| "rx_rank RX_AT_QTD = 4"
| "rx_rank RX_FOR = 3"
| "rx_rank RX_AT_DATA = 2"
| "rx_rank RX_AT_CHK = 1"
| "rx_rank RX_AT_ETX = 0"

definition rx_measure :: "rx_label \<times> globals \<Rightarrow> nat" where
  "rx_measure x = 7 * rx_available (channel (snd x)) + rx_rank (fst x)"

function rx_run :: "rx_label \<Rightarrow> globals \<Rightarrow> int \<times> globals" where
  "rx_run RX_WHILE g =
     rx_run RX_AT_STX
       (g\<lparr>rx_state := (rx_state g)\<lparr>state := RX_WAIT_STX, rx_count := 0, rx_checksum_calc := 0,
                                    message_received := False\<rparr>\<rparr>)"
| "rx_run RX_AT_STX g =
     (let (got, g1) = rx_receive LC_RX_STX g
      in if \<not> (got \<and> incoming_byte g1 = STX_BYTE) then (PT_WAITING, g1)
         else rx_run RX_AT_QTD (g1\<lparr>rx_state := (rx_state g1)\<lparr>state := RX_WAIT_QTD\<rparr>\<rparr>))"
| "rx_run RX_AT_QTD g =
     (let (got, g1) = rx_receive LC_RX_QTD g
      in if \<not> got then (PT_WAITING, g1)
         else if incoming_byte g1 = 0
         then rx_run RX_WHILE (g1\<lparr>channel := channel_send_ack NACK_BYTE (channel g1)\<rparr>)
         else rx_run RX_FOR
                (g1\<lparr>rx_state := (rx_state g1)\<lparr>expected_size := incoming_byte g1,
                                                state := RX_WAIT_DATA, rx_count := 0\<rparr>\<rparr>))"
| "rx_run RX_FOR g =
     (if rx_count (rx_state g) < expected_size (rx_state g)
      then rx_run RX_AT_DATA g
      else rx_run RX_AT_CHK (g\<lparr>rx_state := (rx_state g)\<lparr>state := RX_WAIT_CHK\<rparr>\<rparr>))"
| "rx_run RX_AT_DATA g =
     (let (got, g1) = rx_receive LC_RX_DATA g
      in if \<not> got then (PT_WAITING, g1)
         else (let rx = rx_state g1;
                   rx1 = rx\<lparr>rx_data := (rx_data rx)[unat (rx_count rx) := incoming_byte g1]\<rparr>;
                   rx2 = rx1\<lparr>rx_checksum_calc := rx_checksum_calc rx1 + incoming_byte g1\<rparr>;
                   rx3 = rx2\<lparr>rx_count := rx_count rx2 + 1\<rparr>
               in rx_run RX_FOR (g1\<lparr>rx_state := rx3\<rparr>)))"
| "rx_run RX_AT_CHK g =
     (let (got, g1) = rx_receive LC_RX_CHK g
      in if \<not> got then (PT_WAITING, g1)
         else rx_run RX_AT_ETX
                (g1\<lparr>rx_state := (rx_state g1)\<lparr>rx_checksum_recv := incoming_byte g1,
                                                state := RX_WAIT_ETX\<rparr>\<rparr>))"
| "rx_run RX_AT_ETX g =
     (let (got, g1) = rx_receive LC_RX_ETX g
      in if \<not> got then (PT_WAITING, g1)
         else (let rx = rx_state g1;
                   g2 = (if incoming_byte g1 = ETX_BYTE \<and> rx_checksum_calc rx = rx_checksum_recv rx
                         then g1\<lparr>rx_state := rx\<lparr>message_received := True,
                                                  rx_result := PROTOCOL_SUCCESS\<rparr>,
                                  channel := channel_send_ack ACK_BYTE (channel g1)\<rparr>
                         else g1\<lparr>rx_state := rx\<lparr>rx_result := PROTOCOL_ERROR\<rparr>,
                                  channel := channel_send_ack NACK_BYTE (channel g1)\<rparr>)
               in (PT_YIELDED,
                   g2\<lparr>rx_state := (rx_state g2)\<lparr>rx_pt := (rx_pt (rx_state g2))\<lparr>lc := LC_RX_YIELD\<rparr>\<rparr>\<rparr>)))"
  by pat_completeness auto
termination
proof -
  have consumed: "rx_available (channel g1) < rx_available (channel g)"
    if "rx_receive l g = (True, g1)" for l g g1
  proof -
    let ?ch = "channel g"
    from that have avail: "rx_ready ?ch" "rx_pos ?ch < rx_size ?ch"
      by (auto simp: rx_receive_def channel_receive_byte_def Let_def split: if_splits)
    then have suc: "unat (rx_pos ?ch + 1) = Suc (unat (rx_pos ?ch))"
      and lt: "unat (rx_pos ?ch) < unat (rx_size ?ch)"
      by unat_arith+
    from that avail have
      "rx_available (channel g1) = 0
       \<or> rx_available (channel g1) = unat (rx_size ?ch) - unat (rx_pos ?ch + 1)"
      by (auto simp: rx_receive_def channel_receive_byte_def rx_available_def Let_def
            split: if_splits)
    with avail suc lt show ?thesis
      by (auto simp: rx_available_def)
  qed
  have ack: "rx_available (channel_send_ack a ch) = rx_available ch" for a ch
    by (simp add: rx_available_def channel_send_ack_def)
  show ?thesis
  proof (relation "measure rx_measure")
    show "wf (measure rx_measure)"
      by simp
  qed (auto simp: rx_measure_def ack dest!: consumed [OF sym])
qed

definition receiver_thread :: "globals \<Rightarrow> int \<times> globals" where
  "receiver_thread g =
     (let l = lc (rx_pt (rx_state g)) in
      if l = 0 then rx_run RX_WHILE g
      else if l = LC_RX_STX then rx_run RX_AT_STX g
      else if l = LC_RX_QTD then rx_run RX_AT_QTD g
      else if l = LC_RX_DATA then rx_run RX_AT_DATA g
      else if l = LC_RX_CHK then rx_run RX_AT_CHK g
      else if l = LC_RX_ETX then rx_run RX_AT_ETX g
      else if l = LC_RX_YIELD then (PT_YIELDED, g)
      else (PT_ENDED, g\<lparr>rx_state := (rx_state g)\<lparr>rx_pt := (rx_pt (rx_state g))\<lparr>lc := 0\<rparr>\<rparr>\<rparr>))"

subsection \<open>The public interface and the scheduler\<close>

definition protothreads_init :: "globals \<Rightarrow> globals" where
  "protothreads_init g =
     g\<lparr>tx_state := (tx_state g)\<lparr>tx_pt := PT_INIT (tx_pt (tx_state g))\<rparr>,
       rx_state := (rx_state g)\<lparr>rx_pt := PT_INIT (rx_pt (rx_state g))\<rparr>,
       channel := channel_reset (channel g),
       system_time_ms := 0\<rparr>"

definition protothreads_send_data :: "uint8_t list ptr \<Rightarrow> uint8_t \<Rightarrow> globals \<Rightarrow> int \<times> globals" where
  "protothreads_send_data data sz g =
     (if data = NULL \<or> sz = 0 then (PROTOCOL_INVALID_PARAM, g)
      else (PROTOCOL_SUCCESS,
            g\<lparr>tx_state := (tx_state g)\<lparr>data_to_send := data, data_size := sz, retry_count := 0,
                                         transmission_complete := False, tx_result := 0,
                                         timer := timer_stop (timer (tx_state g)),
                                         tx_pt := PT_INIT (tx_pt (tx_state g))\<rparr>\<rparr>))"

definition protothreads_schedule :: "globals \<Rightarrow> globals option" where
  "protothreads_schedule g =
     (case transmitter_thread g of
        None \<Rightarrow> None
      | Some (r, g1) \<Rightarrow> Some (snd (receiver_thread g1)))"

text \<open>
  The variables of t4 at program start: objects of static storage duration are
  zero-initialised.
\<close>

definition globals_at_start :: globals where
  "globals_at_start =
     \<lparr>system_time_ms = 0,
      channel = \<lparr>tx_buffer = replicate (MAX_DATA_SIZE + 10) 0,
                 rx_buffer = replicate (MAX_DATA_SIZE + 10) 0,
                 tx_size = 0, rx_size = 0, rx_pos = 0, tx_ready = False, rx_ready = False,
                 ack_received = False, ack_value = 0, simulate_loss = False\<rparr>,
      tx_state = \<lparr>tx_pt = \<lparr>lc = 0\<rparr>,
                  timer = \<lparr>start_time = 0, timeout_ms = 0, active = False\<rparr>,
                  data_to_send = NULL, data_size = 0,
                  message_buffer = replicate (MAX_DATA_SIZE + 10) 0, message_size = 0,
                  retry_count = 0, transmission_complete = False, tx_result = 0\<rparr>,
      rx_state = \<lparr>rx_pt = \<lparr>lc = 0\<rparr>, rx_data = replicate MAX_DATA_SIZE 0, rx_count = 0,
                  expected_size = 0, rx_checksum_calc = 0, rx_checksum_recv = 0,
                  state = RX_WAIT_STX, message_received = False, rx_result = 0\<rparr>,
      tx_ack_value = 0, incoming_byte = 0\<rparr>"

text \<open>
  The loop of \<open>test_timeout_and_retry\<close>: a scheduling turn, then the clock moves on by
  \<open>ms\<close>, until the transmission is reported complete or \<open>n\<close> turns have been taken.
\<close>

fun schedule_loop :: "nat \<Rightarrow> uint32_t \<Rightarrow> globals \<Rightarrow> globals option" where
  "schedule_loop 0 ms g = Some g"
| "schedule_loop (Suc n) ms g =
     (case protothreads_schedule g of
        None \<Rightarrow> None
      | Some g1 \<Rightarrow>
          (let g2 = advance_time ms g1
           in if transmission_complete (tx_state g2) then Some g2
              else schedule_loop n ms g2))"


text \<open>
  How the tests of t4 begin: \<open>protothreads_init\<close>, then \<open>protothreads_send_data\<close>
  with a payload and its length; \<open>test_timeout_and_retry\<close> then sets
  \<open>channel.simulate_loss\<close>.
\<close>

definition submission :: "uint8_t list \<Rightarrow> globals" where
  "submission payload =
     snd (protothreads_send_data (Ptr payload) (of_nat (length payload))
            (protothreads_init globals_at_start))"

definition lossy_submission :: "uint8_t list \<Rightarrow> globals" where
  "lossy_submission payload =
     (let g = submission payload in g\<lparr>channel := (channel g)\<lparr>simulate_loss := True\<rparr>\<rparr>)"

text \<open>The state after \<open>n\<close> turns of that loop (the state itself if a turn is undefined).\<close>

definition after_turns :: "nat \<Rightarrow> uint32_t \<Rightarrow> globals \<Rightarrow> globals" where
  "after_turns n ms g = (case schedule_loop n ms g of Some g' \<Rightarrow> g' | None \<Rightarrow> g)"

section \<open>Predicates used in the statements\<close>

text \<open>The table of state functions is the one \<open>protocol_init\<close> installs.\<close>

definition wired :: "ProtocolHandler \<Rightarrow> bool" where
  "wired h \<longleftrightarrow>
     state_functions h ST_STX = Ptr Fn_state_wait_stx \<and>
     state_functions h ST_QTD = Ptr Fn_state_wait_qtd \<and>
     state_functions h ST_DATA = Ptr Fn_state_wait_data \<and>
     state_functions h ST_CHK = Ptr Fn_state_wait_chk \<and>
     state_functions h ST_ETX = Ptr Fn_state_wait_etx"

text \<open>
  What holds of a handler between two calls of \<open>protocol_process_byte\<close>, once it has
  been initialised.
\<close>

definition parser_inv :: "ProtocolHandler \<Rightarrow> bool" where
  "parser_inv h \<longleftrightarrow>
     wired h \<and> length (dados h) = MAX_DATA_SIZE \<and>
     (current_state h = ST_QTD \<longrightarrow> dados_count h = 0) \<and>
     (current_state h = ST_DATA \<longrightarrow> dados_count h < qtd_dados h)"

text \<open>
  A transmitter about to start on the seven-byte payload \<open>01 .. 07\<close>, with nothing
  for the receiver on the channel.
\<close>

definition stuck :: "globals \<Rightarrow> bool" where
  "stuck g \<longleftrightarrow>
     lc (tx_pt (tx_state g)) = 0 \<and> data_to_send (tx_state g) = Ptr [1, 2, 3, 4, 5, 6, 7] \<and>
     data_size (tx_state g) = 7 \<and> \<not> rx_ready (channel g)"

text \<open>
  A transmitter that waits for an acknowledgment on a channel that drops everything, at
  a moment when its timer has run out, after \<open>k\<close> retries.
\<close>

definition awaiting :: "uint8_t \<Rightarrow> globals \<Rightarrow> bool" where
  "awaiting k g \<longleftrightarrow>
     lc (tx_pt (tx_state g)) = LC_TX_WAIT \<and> retry_count (tx_state g) = k \<and>
     \<not> transmission_complete (tx_state g) \<and> simulate_loss (channel g) \<and>
     \<not> rx_ready (channel g) \<and> \<not> ack_received (channel g) \<and>
     timer_expired (system_time_ms g) (timer (tx_state g))"

section \<open>The parser, one byte at a time\<close>

lemma wired_init: "wired (deref (protocol_init (Ptr h)))"
  by (simp add: wired_def protocol_init_def)

lemma init_fields:
  "protocol_init (Ptr h) = Ptr h' \<Longrightarrow>
     wired h' \<and> current_state h' = ST_STX \<and> length (dados h') = MAX_DATA_SIZE \<and>
     \<not> message_ready h' \<and> dados_count h' = 0"
  by (auto simp: wired_def protocol_init_def)

lemma step_stx:
  "wired h \<Longrightarrow> current_state h = ST_STX \<Longrightarrow>
   protocol_process_byte (Ptr h) b =
     (PROTOCOL_WAITING,
      Ptr (if b = STX_BYTE
           then h\<lparr>current_state := ST_QTD, dados_count := 0, checksum_calc := 0,
                  message_ready := False, last_result := PROTOCOL_WAITING\<rparr>
           else h\<lparr>last_result := PROTOCOL_WAITING\<rparr>))"
  by (simp add: wired_def protocol_process_byte_def state_wait_stx_def)

lemma step_qtd:
  "wired h \<Longrightarrow> current_state h = ST_QTD \<Longrightarrow>
   protocol_process_byte (Ptr h) b =
     (PROTOCOL_WAITING,
      Ptr (if b > 0
           then h\<lparr>qtd_dados := b, current_state := ST_DATA, last_result := PROTOCOL_WAITING\<rparr>
           else h\<lparr>current_state := ST_STX, last_result := PROTOCOL_WAITING\<rparr>))"
  by (simp add: wired_def protocol_process_byte_def state_wait_qtd_def)

lemma step_data:
  "wired h \<Longrightarrow> current_state h = ST_DATA \<Longrightarrow>
   protocol_process_byte (Ptr h) b =
     (PROTOCOL_WAITING,
      Ptr (h\<lparr>dados := (dados h)[unat (dados_count h) := b],
             checksum_calc := checksum_calc h + b,
             dados_count := dados_count h + 1,
             current_state := (if dados_count h + 1 \<ge> qtd_dados h then ST_CHK else ST_DATA),
             last_result := PROTOCOL_WAITING\<rparr>))"
  by (simp add: wired_def protocol_process_byte_def state_wait_data_def Let_def)

lemma step_chk:
  "wired h \<Longrightarrow> current_state h = ST_CHK \<Longrightarrow>
   protocol_process_byte (Ptr h) b =
     (PROTOCOL_WAITING,
      Ptr (h\<lparr>checksum_recv := b, current_state := ST_ETX, last_result := PROTOCOL_WAITING\<rparr>))"
  by (simp add: wired_def protocol_process_byte_def state_wait_chk_def)

lemma step_etx:
  "wired h \<Longrightarrow> current_state h = ST_ETX \<Longrightarrow>
   protocol_process_byte (Ptr h) b =
     (if b = ETX_BYTE \<and> checksum_calc h = checksum_recv h
      then (PROTOCOL_SUCCESS,
            Ptr (h\<lparr>message_ready := True, current_state := ST_STX,
                   last_result := PROTOCOL_SUCCESS\<rparr>))
      else (PROTOCOL_ERROR, Ptr (h\<lparr>current_state := ST_STX, last_result := PROTOCOL_ERROR\<rparr>)))"
  by (simp add: wired_def protocol_process_byte_def state_wait_etx_def)

lemma parser_inv_step:
  assumes "parser_inv h"
  shows "\<exists>h'. snd (protocol_process_byte (Ptr h) b) = Ptr h' \<and> parser_inv h'"
proof (cases "current_state h")
  case ST_STX
  with assms show ?thesis
    by (simp add: parser_inv_def step_stx) (simp add: wired_def)
next
  case ST_QTD
  with assms show ?thesis
    by (simp add: parser_inv_def step_qtd) (simp add: wired_def)
next
  case ST_DATA
  with assms have "dados_count h < qtd_dados h" "wired h"
    by (simp_all add: parser_inv_def)
  moreover have "dados_count h + 1 < qtd_dados h" if "\<not> qtd_dados h \<le> dados_count h + 1"
    using that by simp
  ultimately show ?thesis
    using assms ST_DATA by (simp add: parser_inv_def step_data) (simp add: wired_def)
next
  case ST_CHK
  with assms show ?thesis
    by (simp add: parser_inv_def step_chk) (simp add: wired_def)
next
  case ST_ETX
  with assms show ?thesis
    by (simp add: parser_inv_def step_etx) (simp add: wired_def)
qed

lemma parser_inv_process_bytes:
  "parser_inv h \<Longrightarrow> \<exists>h'. snd (process_bytes (Ptr h) bs) = Ptr h' \<and> parser_inv h'"
proof (induction bs arbitrary: h)
  case Nil
  then show ?case by simp
next
  case (Cons b bs)
  from parser_inv_step [OF Cons.prems, of b]
  obtain h1 where h1: "snd (protocol_process_byte (Ptr h) b) = Ptr h1" "parser_inv h1"
    by blast
  from Cons.IH [OF h1(2)] obtain h2 where "snd (process_bytes (Ptr h1) bs) = Ptr h2" "parser_inv h2"
    by blast
  with h1 show ?case
    by (simp add: split_beta)
qed

lemma parser_inv_init: "parser_inv (deref (protocol_init (Ptr h)))"
  by (simp add: parser_inv_def wired_def protocol_init_def)

text \<open>
  C8. After any sequence of bytes fed to a freshly initialised handler, a parser that is in
  \<open>ST_DATA\<close> has \<open>dados_count < qtd_dados\<close>, with \<open>qtd_dados\<close> at most 255, so the cell
  \<open>dados[dados_count]\<close> that \<open>state_wait_data\<close> writes next lies inside the
  \<open>MAX_DATA_SIZE\<close> cells of the receive buffer.
\<close>

theorem data_write_in_bounds:
  assumes "snd (process_bytes (protocol_init (Ptr h0)) bs) = Ptr h"
      and "current_state h = ST_DATA"
  shows "dados_count h < qtd_dados h \<and> unat (qtd_dados h) \<le> 255 \<and>
         length (dados h) = MAX_DATA_SIZE \<and> unat (dados_count h) < length (dados h)"
proof -
  have "protocol_init (Ptr h0) = Ptr (deref (protocol_init (Ptr h0)))"
    by (simp add: protocol_init_def)
  with parser_inv_process_bytes [OF parser_inv_init, of h0 bs] assms(1)
  have inv: "parser_inv h"
    by auto
  with assms(2) have lt: "dados_count h < qtd_dados h" and len: "length (dados h) = MAX_DATA_SIZE"
    by (simp_all add: parser_inv_def)
  have "unat (qtd_dados h) < 256" "unat (dados_count h) < 256"
    using unsigned_less [of "qtd_dados h", where 'a = nat] unsigned_less [of "dados_count h", where 'a = nat]
    by simp_all
  with lt len show ?thesis
    by (simp add: MAX_DATA_SIZE_def)
qed

theorem data_write_in_bounds_witness:
  "current_state (deref (snd (process_bytes (protocol_init (Ptr blank_handler)) [2, 5, 7]))) = ST_DATA \<and>
   dados_count (deref (snd (process_bytes (protocol_init (Ptr blank_handler)) [2, 5, 7])))
     < qtd_dados (deref (snd (process_bytes (protocol_init (Ptr blank_handler)) [2, 5, 7])))"
proof -
  let ?h = "deref (snd (process_bytes (protocol_init (Ptr blank_handler)) [2, 5, 7]))"
  have run: "snd (process_bytes (protocol_init (Ptr blank_handler)) [2, 5, 7]) = Ptr ?h"
    by (simp add: protocol_init_def protocol_process_byte_def state_wait_stx_def
          state_wait_qtd_def state_wait_data_def STX_BYTE_def Let_def word_le_nat_alt)
  have st: "current_state ?h = ST_DATA"
    by (simp add: protocol_init_def protocol_process_byte_def state_wait_stx_def
          state_wait_qtd_def state_wait_data_def STX_BYTE_def Let_def word_le_nat_alt)
  from data_write_in_bounds [OF run st] st show ?thesis
    by simp
qed

text \<open>
  C10. With a null handler \<open>protocol_process_byte\<close> returns \<open>PROTOCOL_INVALID_PARAM\<close>
  for every byte and there is no handler it could have changed; the accessors return
  false, the null pointer and 0.
\<close>

theorem null_handler:
  "protocol_process_byte NULL byte = (PROTOCOL_INVALID_PARAM, NULL) \<and>
   protocol_message_ready NULL = False \<and>
   protocol_get_data NULL = NULL \<and>
   protocol_get_data_count NULL = 0"
  by (simp add: protocol_process_byte_def protocol_message_ready_def protocol_get_data_def
        protocol_get_data_count_def)

section \<open>The encoder\<close>

lemma unat_payload_length:
  "length (payload :: uint8_t list) \<le> 255 \<Longrightarrow> unat (of_nat (length payload) :: uint8_t) = length payload"
  by (simp add: unat_of_nat)

lemma checksum_loop_sum:
  "unat i \<le> unat qtd \<Longrightarrow> unat qtd \<le> length d \<Longrightarrow>
   checksum_loop d qtd i acc = Some (acc + sum_list (drop (unat i) (take (unat qtd) d)))"
proof (induction d qtd i acc rule: checksum_loop.induct)
  case (1 dados qtd i checksum)
  show ?case
  proof (cases "i < qtd")
    case True
    then have suc: "unat (i + 1) = Suc (unat i)" and lt: "unat i < unat qtd"
      by unat_arith+
    with "1.prems" have load: "array_load dados (unat i) = Some (dados ! unat i)"
      by (simp add: array_load_def)
    have "drop (unat i) (take (unat qtd) dados)
            = dados ! unat i # drop (Suc (unat i)) (take (unat qtd) dados)"
      using lt "1.prems" Cons_nth_drop_Suc [of "unat i" "take (unat qtd) dados"] by simp
    moreover have "checksum_loop dados qtd (i + 1) (checksum + dados ! unat i)
            = Some (checksum + dados ! unat i
                    + sum_list (drop (unat (i + 1)) (take (unat qtd) dados)))"
      using "1.IH" [OF True load] suc lt "1.prems" by simp
    ultimately show ?thesis
      using True load suc by (simp add: add.assoc)
  next
    case False
    with "1.prems" have "unat i = unat qtd"
      by (simp add: word_less_nat_alt)
    with False show ?thesis
      by simp
  qed
qed

lemma calculate_checksum_sum:
  "unat qtd \<le> length d \<Longrightarrow>
   protocol_calculate_checksum (Ptr d) qtd = Some (sum_list (take (unat qtd) d))"
  using checksum_loop_sum [of 0 qtd d 0]
  by (simp add: protocol_calculate_checksum_def del: checksum_loop.simps)

lemma frame_layout:
  assumes "length payload + 4 \<le> length buf"
  shows "take (length payload + 4)
           ((take 2 (buf[0 := s, 1 := q]) @ take (length payload) payload
              @ drop (2 + length payload) (buf[0 := s, 1 := q]))
            [2 + length payload := c, 3 + length payload := e])
         = s # q # payload @ [c, e]"
proof -
  from assms obtain a b rest where buf: "buf = a # b # rest"
    by (cases buf; cases "tl buf") auto
  with assms have "length payload + 2 \<le> length rest"
    by simp
  then obtain r0 r1 rest' where rest: "drop (length payload) rest = r0 # r1 # rest'"
    by (cases "drop (length payload) rest"; cases "tl (drop (length payload) rest)")
       (auto simp: drop_eq_Nil dest: arg_cong [where f = length])
  have "(s # q # payload @ r0 # r1 # rest')[2 + length payload := c, 3 + length payload := e]
          = s # q # payload @ c # e # rest'"
    by (simp add: list_update_append)
  moreover have "take (length payload + 4) (s # q # payload @ c # e # rest') = s # q # payload @ [c, e]"
    by (simp add: take_Cons')
  ultimately show ?thesis
    using buf rest by simp
qed

lemma create_message_frame:
  assumes "payload \<noteq> []" "length payload \<le> 255"
      and "length payload + 4 \<le> length buffer"
      and "5 + of_nat (length payload) \<le> bsz"
  shows "\<exists>b'. protocol_create_message (Ptr payload) (of_nat (length payload)) (Ptr buffer) (Ptr bsz)
                = Some (PROTOCOL_SUCCESS, Ptr b', Ptr (5 + of_nat (length payload))) \<and>
              take (length payload + 4) b'
                = STX_BYTE # of_nat (length payload) # payload @ [sum_list payload, ETX_BYTE]"
proof -
  let ?q = "of_nat (length payload) :: uint8_t"
  have q: "unat ?q = length payload"
    using assms(2) by (rule unat_payload_length)
  with assms(1) have nz: "?q \<noteq> 0"
    by (metis length_0_conv unat_0)
  have chk: "protocol_calculate_checksum (Ptr payload) ?q = Some (sum_list payload)"
    using calculate_checksum_sum [of ?q payload] q by simp
  have fits: "\<not> bsz < 5 + ?q"
    using assms(4) by simp
  let ?b1 = "buffer[0 := STX_BYTE, 1 := ?q]"
  let ?b2 = "take 2 ?b1 @ take (length payload) payload @ drop (2 + length payload) ?b1"
  have "array_store buffer 0 STX_BYTE = Some (buffer[0 := STX_BYTE])"
    "array_store (buffer[0 := STX_BYTE]) 1 ?q = Some ?b1"
    "memcpy ?b1 2 payload (length payload) = Some ?b2"
    using assms(3) by (auto simp: array_store_def memcpy_def)
  moreover have "length ?b2 = length buffer"
    using assms(3) by simp
  then have "array_store ?b2 (2 + length payload) (sum_list payload)
      = Some (?b2[2 + length payload := sum_list payload])"
    "array_store (?b2[2 + length payload := sum_list payload]) (3 + length payload) ETX_BYTE
      = Some (?b2[2 + length payload := sum_list payload, 3 + length payload := ETX_BYTE])"
    using assms(3) unfolding array_store_def by simp_all
  ultimately have "protocol_create_message (Ptr payload) ?q (Ptr buffer) (Ptr bsz)
      = Some (PROTOCOL_SUCCESS,
              Ptr (?b2[2 + length payload := sum_list payload, 3 + length payload := ETX_BYTE]),
              Ptr (5 + ?q))"
    using nz chk fits q by (simp add: protocol_create_message_def)
  with frame_layout [OF assms(3), of STX_BYTE ?q "sum_list payload" ETX_BYTE] show ?thesis
    by blast
qed

section \<open>A frame through the parser\<close>

lemma process_bytes_append:
  "process_bytes p (xs @ ys) =
     (let (r1, p1) = process_bytes p xs; (r2, p2) = process_bytes p1 ys in (r1 @ r2, p2))"
  by (induction xs arbitrary: p) (simp_all add: split_beta)

lemma data_phase:
  assumes "wired h" "current_state h = ST_DATA" "xs \<noteq> []"
      and "unat (dados_count h) + length xs = unat (qtd_dados h)"
      and "length (dados h) = MAX_DATA_SIZE"
  shows "\<exists>h'. process_bytes (Ptr h) xs = (replicate (length xs) PROTOCOL_WAITING, Ptr h') \<and>
           wired h' \<and> current_state h' = ST_CHK \<and> qtd_dados h' = qtd_dados h \<and>
           checksum_calc h' = checksum_calc h + sum_list xs \<and>
           take (unat (qtd_dados h)) (dados h') = take (unat (dados_count h)) (dados h) @ xs \<and>
           length (dados h') = MAX_DATA_SIZE"
  using assms
proof (induction xs arbitrary: h)
  case Nil
  then show ?case by simp
next
  case (Cons x xs)
  let ?c = "dados_count h"
  from Cons.prems(4) have lt: "?c < qtd_dados h"
    by (simp add: word_less_nat_alt)
  then have suc: "unat (?c + 1) = Suc (unat ?c)"
    by unat_arith
  have inside: "unat ?c < length (dados h)"
    using Cons.prems(5) unsigned_less [of ?c, where 'a = nat] by (simp add: MAX_DATA_SIZE_def)
  have upd: "take (Suc (unat ?c)) ((dados h)[unat ?c := x]) = take (unat ?c) (dados h) @ [x]"
    using inside by (simp add: take_Suc_conv_app_nth)
  show ?case
  proof (cases "xs = []")
    case True
    with Cons.prems(4) suc have "qtd_dados h \<le> ?c + 1" "unat (qtd_dados h) = Suc (unat ?c)"
      by (simp_all add: word_le_nat_alt)
    with True Cons.prems upd show ?thesis
      by (simp add: step_data wired_def)
  next
    case False
    with Cons.prems(4) suc have more: "\<not> qtd_dados h \<le> ?c + 1"
      by (cases xs) (simp_all add: word_le_nat_alt)
    let ?h1 = "h\<lparr>dados := (dados h)[unat ?c := x], checksum_calc := checksum_calc h + x,
                   dados_count := ?c + 1, current_state := ST_DATA,
                   last_result := PROTOCOL_WAITING\<rparr>"
    have step: "protocol_process_byte (Ptr h) x = (PROTOCOL_WAITING, Ptr ?h1)"
      using Cons.prems(1,2) more by (simp add: step_data)
    have "wired ?h1" "current_state ?h1 = ST_DATA"
      "unat (dados_count ?h1) + length xs = unat (qtd_dados ?h1)"
      "length (dados ?h1) = MAX_DATA_SIZE"
      using Cons.prems suc by (simp_all add: wired_def)
    from Cons.IH [OF this(1,2) False this(3,4)] obtain h' where
      h': "process_bytes (Ptr ?h1) xs = (replicate (length xs) PROTOCOL_WAITING, Ptr h')"
        "wired h'" "current_state h' = ST_CHK" "qtd_dados h' = qtd_dados ?h1"
        "checksum_calc h' = checksum_calc ?h1 + sum_list xs"
        "take (unat (qtd_dados ?h1)) (dados h') = take (unat (dados_count ?h1)) (dados ?h1) @ xs"
        "length (dados h') = MAX_DATA_SIZE"
      by blast
    from h' step suc upd show ?thesis
      by (simp add: add.assoc)
  qed
qed

lemma frame_accepted:
  assumes "wired h" "current_state h = ST_STX" "length (dados h) = MAX_DATA_SIZE"
      and "payload \<noteq> []" "length payload \<le> 255"
  shows "\<exists>h'. process_bytes (Ptr h)
                 (STX_BYTE # of_nat (length payload) # payload @ [sum_list payload, ETX_BYTE])
               = (replicate (length payload + 3) PROTOCOL_WAITING @ [PROTOCOL_SUCCESS], Ptr h') \<and>
             message_ready h' \<and> qtd_dados h' = of_nat (length payload) \<and>
             take (length payload) (dados h') = payload"
proof -
  let ?q = "of_nat (length payload) :: uint8_t"
  have q: "unat ?q = length payload"
    using assms(5) by (rule unat_payload_length)
  with assms(4) have pos: "?q > 0"
    by (metis length_0_conv unat_0 word_neq_0_conv)
  let ?h1 = "h\<lparr>current_state := ST_QTD, dados_count := 0, checksum_calc := 0,
                 message_ready := False, last_result := PROTOCOL_WAITING\<rparr>"
  let ?h2 = "?h1\<lparr>qtd_dados := ?q, current_state := ST_DATA, last_result := PROTOCOL_WAITING\<rparr>"
  have s1: "protocol_process_byte (Ptr h) STX_BYTE = (PROTOCOL_WAITING, Ptr ?h1)"
    using assms(1,2) by (simp add: step_stx)
  have "wired ?h1" "current_state ?h1 = ST_QTD"
    using assms(1) by (simp_all add: wired_def)
  then have s2: "protocol_process_byte (Ptr ?h1) ?q = (PROTOCOL_WAITING, Ptr ?h2)"
    using pos by (simp add: step_qtd)
  have "wired ?h2" "current_state ?h2 = ST_DATA"
    "unat (dados_count ?h2) + length payload = unat (qtd_dados ?h2)"
    "length (dados ?h2) = MAX_DATA_SIZE"
    using assms(1,3) q by (simp_all add: wired_def)
  from data_phase [OF this(1,2) assms(4) this(3,4)] obtain h3 where
    h3: "process_bytes (Ptr ?h2) payload = (replicate (length payload) PROTOCOL_WAITING, Ptr h3)"
      "wired h3" "current_state h3 = ST_CHK" "qtd_dados h3 = ?q"
      "checksum_calc h3 = sum_list payload"
      "take (length payload) (dados h3) = payload"
    using q by auto
  let ?h4 = "h3\<lparr>checksum_recv := sum_list payload, current_state := ST_ETX,
                  last_result := PROTOCOL_WAITING\<rparr>"
  have s4: "protocol_process_byte (Ptr h3) (sum_list payload) = (PROTOCOL_WAITING, Ptr ?h4)"
    using h3(2,3) by (simp add: step_chk)
  have "wired ?h4" "current_state ?h4 = ST_ETX"
    using h3(2) by (simp_all add: wired_def)
  then have s5: "protocol_process_byte (Ptr ?h4) ETX_BYTE
      = (PROTOCOL_SUCCESS, Ptr (?h4\<lparr>message_ready := True, current_state := ST_STX,
                                       last_result := PROTOCOL_SUCCESS\<rparr>))"
    using h3(5) by (simp add: step_etx)
  have tail: "process_bytes (Ptr ?h2) (payload @ [sum_list payload, ETX_BYTE])
      = (replicate (length payload) PROTOCOL_WAITING @ [PROTOCOL_WAITING, PROTOCOL_SUCCESS],
         Ptr (?h4\<lparr>message_ready := True, current_state := ST_STX,
                    last_result := PROTOCOL_SUCCESS\<rparr>))"
    using h3(1) s4 s5 by (simp add: process_bytes_append)
  have "replicate (length payload + 3) PROTOCOL_WAITING
      = PROTOCOL_WAITING # PROTOCOL_WAITING # replicate (length payload) PROTOCOL_WAITING @ [PROTOCOL_WAITING]"
    by (simp add: replicate_append_same numeral_3_eq_3)
  with s1 s2 tail h3(4,6) show ?thesis
    by simp
qed

lemma idle_ignores:
  "wired h \<Longrightarrow> current_state h = ST_STX \<Longrightarrow> STX_BYTE \<notin> set noise \<Longrightarrow>
   \<exists>h'. process_bytes (Ptr h) noise = (replicate (length noise) PROTOCOL_WAITING, Ptr h') \<and>
        wired h' \<and> current_state h' = ST_STX"
proof (induction noise arbitrary: h)
  case Nil
  then show ?case by simp
next
  case (Cons b bs)
  let ?h1 = "h\<lparr>last_result := PROTOCOL_WAITING\<rparr>"
  from Cons.prems have step: "protocol_process_byte (Ptr h) b = (PROTOCOL_WAITING, Ptr ?h1)"
    by (auto simp: step_stx)
  have "wired ?h1" "current_state ?h1 = ST_STX" "STX_BYTE \<notin> set bs"
    using Cons.prems by (simp_all add: wired_def)
  from Cons.IH [OF this] step show ?case
    by auto
qed

lemma noise_without_stx:
  assumes "STX_BYTE \<notin> set noise"
  shows "fst (process_bytes (protocol_init (Ptr h0)) noise) = replicate (length noise) PROTOCOL_WAITING \<and>
         current_state (deref (snd (process_bytes (protocol_init (Ptr h0)) noise))) = ST_STX"
proof -
  obtain h where h: "protocol_init (Ptr h0) = Ptr h" "wired h" "current_state h = ST_STX"
    using init_fields [of h0] by (cases "protocol_init (Ptr h0)") (auto simp: protocol_init_def)
  from idle_ignores [OF h(2,3) assms] h(1) show ?thesis
    by auto
qed

text \<open>
  C1. A payload of 1 to 255 bytes is encoded by \<open>protocol_create_message\<close> into a buffer
  that has room for the frame and whose declared size passes the encoder's test. The
  \<open>length payload + 4\<close> bytes the encoder wrote, fed one at a time to a freshly
  initialised parser, give \<open>PROTOCOL_WAITING\<close> for every byte but the last and
  \<open>PROTOCOL_SUCCESS\<close> for the last, with \<open>message_ready\<close> set, the count equal to the
  payload's length and the payload at the start of the data buffer.
\<close>

theorem encode_parse_roundtrip:
  assumes "payload \<noteq> []" "length payload \<le> 255"
      and "length payload + 4 \<le> length buffer"
      and "5 + of_nat (length payload) \<le> bsz"
  shows "\<exists>frame_buf sz h.
           protocol_create_message (Ptr payload) (of_nat (length payload)) (Ptr buffer) (Ptr bsz)
             = Some (PROTOCOL_SUCCESS, Ptr frame_buf, Ptr sz) \<and>
           process_bytes (protocol_init (Ptr h0)) (take (length payload + 4) frame_buf)
             = (replicate (length payload + 3) PROTOCOL_WAITING @ [PROTOCOL_SUCCESS], Ptr h) \<and>
           protocol_message_ready (Ptr h) \<and>
           protocol_get_data_count (Ptr h) = of_nat (length payload) \<and>
           take (length payload) (deref (protocol_get_data (Ptr h))) = payload"
proof -
  from create_message_frame [OF assms] obtain frame_buf where
    enc: "protocol_create_message (Ptr payload) (of_nat (length payload)) (Ptr buffer) (Ptr bsz)
            = Some (PROTOCOL_SUCCESS, Ptr frame_buf, Ptr (5 + of_nat (length payload)))"
    and frame: "take (length payload + 4) frame_buf
            = STX_BYTE # of_nat (length payload) # payload @ [sum_list payload, ETX_BYTE]"
    by blast
  obtain hi where hi: "protocol_init (Ptr h0) = Ptr hi" "wired hi" "current_state hi = ST_STX"
      "length (dados hi) = MAX_DATA_SIZE"
    using init_fields [of h0] by (cases "protocol_init (Ptr h0)") (auto simp: protocol_init_def)
  from frame_accepted [OF hi(2,3,4) assms(1,2)] obtain h where
    "process_bytes (Ptr hi)
       (STX_BYTE # of_nat (length payload) # payload @ [sum_list payload, ETX_BYTE])
     = (replicate (length payload + 3) PROTOCOL_WAITING @ [PROTOCOL_SUCCESS], Ptr h)"
    "message_ready h" "qtd_dados h = of_nat (length payload)"
    "take (length payload) (dados h) = payload"
    by blast
  with enc frame hi(1) show ?thesis
    by (simp add: protocol_message_ready_def protocol_get_data_count_def protocol_get_data_def)
qed

theorem encode_parse_roundtrip_witness:
  "process_bytes (protocol_init (Ptr blank_handler)) [0x02, 2, 0x10, 0x20, 0x30, 0x03]
     = (replicate 5 PROTOCOL_WAITING @ [PROTOCOL_SUCCESS],
        snd (process_bytes (protocol_init (Ptr blank_handler)) [0x02, 2, 0x10, 0x20, 0x30, 0x03])) \<and>
   protocol_message_ready
     (snd (process_bytes (protocol_init (Ptr blank_handler)) [0x02, 2, 0x10, 0x20, 0x30, 0x03])) \<and>
   protocol_get_data_count
     (snd (process_bytes (protocol_init (Ptr blank_handler)) [0x02, 2, 0x10, 0x20, 0x30, 0x03])) = 2"
proof -
  have enc: "protocol_create_message (Ptr [0x10, 0x20]) 2 (Ptr (replicate 6 0)) (Ptr 7)
      = Some (PROTOCOL_SUCCESS, Ptr [0x02, 2, 0x10, 0x20, 0x30, 0x03], Ptr 7)"
    by code_simp
  have "[0x10, 0x20 :: uint8_t] \<noteq> []" "length [0x10, 0x20 :: uint8_t] \<le> 255"
    "length [0x10, 0x20 :: uint8_t] + 4 \<le> length (replicate 6 (0 :: uint8_t))"
    "5 + of_nat (length [0x10, 0x20 :: uint8_t]) \<le> (7 :: uint8_t)"
    by simp_all
  from encode_parse_roundtrip [OF this, of blank_handler] enc show ?thesis
    by auto
qed

text \<open>
  C2, at the input of \<open>test_create_message\<close>: the encoder lays out the seven bytes
  \<open>STX, 3, AA, BB, CC, checksum, ETX\<close> and stores 8 in \<open>*buffer_size\<close>.
\<close>

theorem create_message_reported_size:
  "protocol_create_message (Ptr [0xAA, 0xBB, 0xCC]) 3 (Ptr (replicate 10 0)) (Ptr 10)
     = Some (PROTOCOL_SUCCESS, Ptr [0x02, 3, 0xAA, 0xBB, 0xCC, 0x31, 0x03, 0, 0, 0], Ptr 8)"
  by code_simp

text \<open>
  C7 as stated fails: the noise \<open>02 01\<close> looks like the start of a frame, the parser
  takes the first two bytes of the valid frame \<open>02 01 42 42 03\<close> as payload and checksum,
  and rejects at \<open>42\<close>. The stream gives no \<open>PROTOCOL_SUCCESS\<close> and one
  \<open>PROTOCOL_ERROR\<close>.
\<close>

theorem noise_then_frame_counterexample:
  "protocol_create_message (Ptr [0x42]) 1 (Ptr (replicate 5 0)) (Ptr 6)
     = Some (PROTOCOL_SUCCESS, Ptr [0x02, 1, 0x42, 0x42, 0x03], Ptr 6) \<and>
   fst (process_bytes (protocol_init (Ptr blank_handler)) ([0x02, 1] @ [0x02, 1, 0x42, 0x42, 0x03]))
     = [PROTOCOL_WAITING, PROTOCOL_WAITING, PROTOCOL_WAITING, PROTOCOL_WAITING, PROTOCOL_ERROR,
        PROTOCOL_WAITING, PROTOCOL_WAITING]"
  by code_simp

text \<open>
  C7, amended. Noise that a freshly initialised parser answers with \<open>PROTOCOL_WAITING\<close>
  only and that leaves it in \<open>ST_STX\<close> (as every noise without the byte \<open>STX_BYTE\<close>
  does, lemma \<open>noise_without_stx\<close>), followed by the bytes of one frame written by the
  encoder, gives exactly one \<open>PROTOCOL_SUCCESS\<close>, at the last byte, and no
  \<open>PROTOCOL_ERROR\<close>.
\<close>

theorem noise_then_frame:
  assumes "payload \<noteq> []" "length payload \<le> 255"
      and "length payload + 4 \<le> length buffer"
      and "5 + of_nat (length payload) \<le> bsz"
      and quiet: "fst (process_bytes (protocol_init (Ptr h0)) noise)
                    = replicate (length noise) PROTOCOL_WAITING"
      and idle: "current_state (deref (snd (process_bytes (protocol_init (Ptr h0)) noise))) = ST_STX"
  shows "\<exists>frame_buf sz rs h.
           protocol_create_message (Ptr payload) (of_nat (length payload)) (Ptr buffer) (Ptr bsz)
             = Some (PROTOCOL_SUCCESS, Ptr frame_buf, Ptr sz) \<and>
           process_bytes (protocol_init (Ptr h0)) (noise @ take (length payload + 4) frame_buf)
             = (rs, Ptr h) \<and>
           rs = replicate (length noise + length payload + 3) PROTOCOL_WAITING @ [PROTOCOL_SUCCESS] \<and>
           count_list rs PROTOCOL_SUCCESS = 1 \<and> count_list rs PROTOCOL_ERROR = 0 \<and>
           protocol_message_ready (Ptr h) \<and>
           take (length payload) (deref (protocol_get_data (Ptr h))) = payload"
proof -
  from create_message_frame [OF assms(1-4)] obtain frame_buf where
    enc: "protocol_create_message (Ptr payload) (of_nat (length payload)) (Ptr buffer) (Ptr bsz)
            = Some (PROTOCOL_SUCCESS, Ptr frame_buf, Ptr (5 + of_nat (length payload)))"
    and frame: "take (length payload + 4) frame_buf
            = STX_BYTE # of_nat (length payload) # payload @ [sum_list payload, ETX_BYTE]"
    by blast
  have "protocol_init (Ptr h0) = Ptr (deref (protocol_init (Ptr h0)))"
    by (simp add: protocol_init_def)
  with parser_inv_process_bytes [OF parser_inv_init, of h0 noise]
  obtain hn where hn: "snd (process_bytes (protocol_init (Ptr h0)) noise) = Ptr hn" "parser_inv hn"
    by auto
  with idle have st: "wired hn" "current_state hn = ST_STX" "length (dados hn) = MAX_DATA_SIZE"
    by (simp_all add: parser_inv_def)
  from quiet hn(1) have noise: "process_bytes (protocol_init (Ptr h0)) noise
      = (replicate (length noise) PROTOCOL_WAITING, Ptr hn)"
    by (metis prod.collapse)
  from frame_accepted [OF st assms(1,2)] obtain h where
    h: "process_bytes (Ptr hn)
          (STX_BYTE # of_nat (length payload) # payload @ [sum_list payload, ETX_BYTE])
        = (replicate (length payload + 3) PROTOCOL_WAITING @ [PROTOCOL_SUCCESS], Ptr h)"
      "message_ready h" "take (length payload) (dados h) = payload"
    by blast
  let ?rs = "replicate (length noise + length payload + 3) PROTOCOL_WAITING @ [PROTOCOL_SUCCESS]"
  have run: "process_bytes (protocol_init (Ptr h0)) (noise @ take (length payload + 4) frame_buf)
      = (?rs, Ptr h)"
    using noise h(1) frame
    by (simp add: process_bytes_append replicate_add [symmetric] add.assoc del: replicate_add)
  have "count_list ?rs PROTOCOL_SUCCESS = 1" "count_list ?rs PROTOCOL_ERROR = 0"
    by (simp_all add: count_list_0_iff PROTOCOL_SUCCESS_def PROTOCOL_WAITING_def PROTOCOL_ERROR_def)
  with enc run h(2,3) show ?thesis
    by (simp add: protocol_message_ready_def protocol_get_data_def)
qed

theorem noise_then_frame_witness:
  "fst (process_bytes (protocol_init (Ptr blank_handler)) ([0xFF, 0x00] @ [0x02, 1, 0x42, 0x42, 0x03]))
     = replicate 6 PROTOCOL_WAITING @ [PROTOCOL_SUCCESS]"
proof -
  have enc: "protocol_create_message (Ptr [0x42]) 1 (Ptr (replicate 5 0)) (Ptr 6)
      = Some (PROTOCOL_SUCCESS, Ptr [0x02, 1, 0x42, 0x42, 0x03], Ptr 6)"
    by code_simp
  have pre: "[0x42 :: uint8_t] \<noteq> []" "length [0x42 :: uint8_t] \<le> 255"
    "length [0x42 :: uint8_t] + 4 \<le> length (replicate 5 (0 :: uint8_t))"
    "5 + of_nat (length [0x42 :: uint8_t]) \<le> (6 :: uint8_t)"
    by simp_all
  have quiet: "fst (process_bytes (protocol_init (Ptr blank_handler)) [0xFF, 0x00])
      = replicate (length [0xFF, 0x00 :: uint8_t]) PROTOCOL_WAITING"
    and idle: "current_state (deref (snd (process_bytes (protocol_init (Ptr blank_handler)) [0xFF, 0x00])))
      = ST_STX"
    by (simp_all add: protocol_init_def protocol_process_byte_def state_wait_stx_def STX_BYTE_def)
  from noise_then_frame [OF pre quiet idle] enc show ?thesis
    by auto
qed

text \<open>
  C9. A timer whose \<open>active\<close> flag is clear, be it never set or stopped by
  \<open>timer_stop\<close>, is not expired, whatever the clock shows and however far it is advanced.
\<close>

theorem timer_not_armed:
  assumes "\<not> active tm"
  shows "\<not> timer_expired now tm \<and>
         \<not> timer_expired (system_time_ms (advance_time ms g)) tm \<and>
         \<not> active (timer_stop tm') \<and>
         \<not> timer_expired now (timer_stop tm') \<and>
         \<not> timer_expired (system_time_ms (advance_time ms g)) (timer_stop tm')"
  using assms by (simp add: timer_expired_def timer_stop_def)

theorem timer_not_armed_witness:
  "\<not> active (timer (tx_state globals_at_start)) \<and>
   \<not> timer_expired 4000000000 (timer (tx_state globals_at_start)) \<and>
   \<not> timer_expired (system_time_ms (advance_time 5000 globals_at_start))
        (timer_stop (timer_set 0 (timer (tx_state globals_at_start)) 1000))"
proof -
  have idle: "\<not> active (timer (tx_state globals_at_start))"
    by (simp add: globals_at_start_def)
  from timer_not_armed [OF idle, of 4000000000 5000 globals_at_start
      "timer_set 0 (timer (tx_state globals_at_start)) 1000"] idle
  show ?thesis
    by simp
qed

section \<open>The receiver's turn\<close>

lemma rx_receive_nothing:
  "\<not> (rx_ready (channel g) \<and> rx_pos (channel g) < rx_size (channel g)) \<Longrightarrow>
   rx_receive l g = (False, g\<lparr>rx_state := (rx_state g)\<lparr>rx_pt := (rx_pt (rx_state g))\<lparr>lc := l\<rparr>\<rparr>\<rparr>)"
  by (auto simp: rx_receive_def channel_receive_byte_def)

lemma rx_receive_byte:
  "rx_ready (channel g) \<Longrightarrow> rx_pos (channel g) < rx_size (channel g) \<Longrightarrow>
   rx_receive l g =
     (True,
      g\<lparr>rx_state := (rx_state g)\<lparr>rx_pt := (rx_pt (rx_state g))\<lparr>lc := l\<rparr>\<rparr>,
        channel := (channel g)\<lparr>rx_pos := rx_pos (channel g) + 1,
                                rx_ready := \<not> (rx_pos (channel g) + 1 \<ge> rx_size (channel g))\<rparr>,
        incoming_byte := rx_buffer (channel g) ! unat (rx_pos (channel g))\<rparr>)"
  by (auto simp: rx_receive_def channel_receive_byte_def Let_def)

lemma receiver_idle:
  assumes "\<not> rx_ready (channel g)"
  shows "channel (snd (receiver_thread g)) = channel g \<and>
         tx_state (snd (receiver_thread g)) = tx_state g \<and>
         system_time_ms (snd (receiver_thread g)) = system_time_ms g"
  using assms by (simp add: receiver_thread_def rx_receive_nothing Let_def)

section \<open>A payload the transmitter cannot encode\<close>

lemma sizeof_message_buffer:
  "(of_nat (MAX_DATA_SIZE + 10) :: uint8_t) = 10" "(of_nat MAX_DATA_SIZE + 10 :: uint8_t) = 10"
  by (simp_all add: MAX_DATA_SIZE_def)

lemma transmitter_seven_bytes:
  assumes "lc (tx_pt (tx_state g)) = 0"
      and "data_to_send (tx_state g) = Ptr [1, 2, 3, 4, 5, 6, 7]"
      and "data_size (tx_state g) = 7"
  shows "transmitter_thread g =
           Some (PT_EXITED,
                 g\<lparr>tx_state := (tx_state g)\<lparr>retry_count := 0, transmission_complete := False,
                                              message_size := 10, tx_result := PROTOCOL_ERROR,
                                              tx_pt := (tx_pt (tx_state g))\<lparr>lc := 0\<rparr>\<rparr>\<rparr>)"
proof -
  have "protocol_create_message (Ptr [1, 2, 3, 4, 5, 6, 7]) 7 (Ptr buf) (Ptr 10)
          = Some (PROTOCOL_ERROR, Ptr buf, Ptr 10)" for buf
    by (simp add: protocol_create_message_def calculate_checksum_sum)
  with assms show ?thesis
    by (simp add: transmitter_thread_def sizeof_message_buffer PT_INIT_def Let_def
          PROTOCOL_ERROR_def PROTOCOL_SUCCESS_def)
qed


lemma stuck_schedule:
  assumes "stuck g"
  shows "\<exists>g'. protothreads_schedule g = Some g' \<and> stuck g' \<and>
           \<not> transmission_complete (tx_state g') \<and> tx_result (tx_state g') = PROTOCOL_ERROR \<and>
           retry_count (tx_state g') = 0"
proof -
  let ?g1 = "g\<lparr>tx_state := (tx_state g)\<lparr>retry_count := 0, transmission_complete := False,
                                          message_size := 10, tx_result := PROTOCOL_ERROR,
                                          tx_pt := (tx_pt (tx_state g))\<lparr>lc := 0\<rparr>\<rparr>\<rparr>"
  from assms have tx: "transmitter_thread g = Some (PT_EXITED, ?g1)"
    by (simp add: stuck_def transmitter_seven_bytes)
  from assms have "\<not> rx_ready (channel ?g1)"
    by (simp add: stuck_def)
  from receiver_idle [OF this] tx assms show ?thesis
    by (simp add: protothreads_schedule_def stuck_def)
qed

lemma stuck_loop:
  "stuck g \<Longrightarrow>
   \<exists>g'. schedule_loop (Suc n) ms g = Some g' \<and> stuck g' \<and>
     \<not> transmission_complete (tx_state g') \<and> tx_result (tx_state g') = PROTOCOL_ERROR \<and>
     retry_count (tx_state g') = 0"
proof (induction n arbitrary: g)
  case 0
  from stuck_schedule [OF 0] show ?case
    by (auto simp: advance_time_def stuck_def)
next
  case (Suc n)
  from stuck_schedule [OF Suc.prems] obtain g1 where
    g1: "protothreads_schedule g = Some g1" "stuck g1" "\<not> transmission_complete (tx_state g1)"
    by blast
  then have "stuck (advance_time ms g1)" "\<not> transmission_complete (tx_state (advance_time ms g1))"
    by (simp_all add: advance_time_def stuck_def)
  from Suc.IH [OF this(1)] this(2) g1(1) show ?case
    by (simp del: schedule_loop.simps add: schedule_loop.simps(2) [of "Suc n"])
qed

text \<open>
  C3, at a payload of seven bytes. The transmitter hands the encoder a buffer size of
  \<open>(uint8_t)sizeof(tx->message_buffer)\<close>, which is 266 reduced to 10; the encoder
  wants \<open>5 + 7\<close> and returns \<open>PROTOCOL_ERROR\<close>. However many turns are taken and
  however far the clock moves at each, the transmitter never sends, never counts a
  retry, never sets \<open>transmission_complete\<close>, and its result is \<open>PROTOCOL_ERROR\<close>,
  not \<open>PROTOCOL_TIMEOUT\<close>.
\<close>

theorem seven_byte_payload_never_times_out:
  "\<exists>g'. schedule_loop (Suc n) ms (lossy_submission [1, 2, 3, 4, 5, 6, 7]) = Some g' \<and>
     \<not> transmission_complete (tx_state g') \<and>
     tx_result (tx_state g') = PROTOCOL_ERROR \<and>
     tx_result (tx_state g') \<noteq> PROTOCOL_TIMEOUT \<and>
     retry_count (tx_state g') = 0 \<and>
     \<not> rx_ready (channel g')"
proof -
  have "stuck (lossy_submission [1, 2, 3, 4, 5, 6, 7])"
    by (simp add: stuck_def lossy_submission_def submission_def protothreads_send_data_def
          protothreads_init_def channel_reset_def PT_INIT_def Let_def)
  from stuck_loop [OF this, of n ms] show ?thesis
    by (auto simp: stuck_def PROTOCOL_ERROR_def PROTOCOL_TIMEOUT_def)
qed

section \<open>The transmitter's turn\<close>

lemma timer_fresh: "\<not> timer_expired now (timer_set now tm TIMEOUT_MS)"
  by (simp add: timer_expired_def timer_set_def TIMEOUT_MS_def)

lemma tx_while_sends:
  assumes "retry_count (tx_state g) < MAX_RETRIES" "\<not> ack_received (channel g)"
  shows "tx_run TX_WHILE g =
           (PT_WAITING,
            g\<lparr>channel := channel_send (message_buffer (tx_state g)) (message_size (tx_state g))
                           (channel g),
              tx_state := (tx_state g)
                \<lparr>timer := timer_set (system_time_ms g) (timer (tx_state g)) TIMEOUT_MS,
                 tx_pt := (tx_pt (tx_state g))\<lparr>lc := LC_TX_WAIT\<rparr>\<rparr>\<rparr>)"
proof -
  have "\<not> ack_received (channel_send b s (channel g))" for b s
    using assms(2) by (simp add: channel_send_def Let_def)
  with assms(1) show ?thesis
    by (simp add: tx_wait_condition_def channel_ack_received_def timer_fresh Let_def)
qed

lemma tx_while_gives_up:
  assumes "\<not> retry_count (tx_state g) < MAX_RETRIES"
  shows "tx_run TX_WHILE g =
           (PT_ENDED,
            g\<lparr>tx_state := (tx_state g)\<lparr>tx_result := PROTOCOL_TIMEOUT, transmission_complete := True,
                                         tx_pt := (tx_pt (tx_state g))\<lparr>lc := 0\<rparr>\<rparr>\<rparr>)"
  using assms by (simp add: Let_def)

lemma tx_wait_expired:
  assumes "timer_expired (system_time_ms g) (timer (tx_state g))"
  shows "tx_run TX_WAIT_ACK g =
           tx_run TX_WHILE
             (g\<lparr>channel := (channel g)\<lparr>ack_received := False\<rparr>,
                tx_ack_value := (if ack_received (channel g) then ack_value (channel g)
                                 else tx_ack_value g),
                tx_state := (tx_state g)\<lparr>tx_pt := (tx_pt (tx_state g))\<lparr>lc := LC_TX_WAIT\<rparr>,
                                           retry_count := retry_count (tx_state g) + 1\<rparr>\<rparr>)"
proof (cases "ack_received (channel g)")
  case True
  with assms show ?thesis
    by (simp add: tx_wait_condition_def channel_ack_received_def Let_def del: tx_run.simps(1))
next
  case False
  then have same: "(channel g)\<lparr>ack_received := False\<rparr> = channel g"
    by simp
  from False assms show ?thesis
    by (simp add: same tx_wait_condition_def channel_ack_received_def Let_def
          del: tx_run.simps(1))
qed

lemma tx_run_end_resets_lc:
  "tx_run l g = (r, g') \<Longrightarrow> r \<noteq> PT_WAITING \<Longrightarrow> lc (tx_pt (tx_state g')) = 0"
proof (induction l g arbitrary: r g' rule: tx_run.induct)
  case (1 g)
  show ?case
  proof (cases "retry_count (tx_state g) < MAX_RETRIES")
    case True
    with "1.prems"(1) have "tx_run TX_WAIT_ACK
        (g\<lparr>channel := channel_send (message_buffer (tx_state g)) (message_size (tx_state g)) (channel g),
           tx_state := (tx_state g)\<lparr>timer := timer_set (system_time_ms g) (timer (tx_state g)) TIMEOUT_MS\<rparr>\<rparr>)
        = (r, g')"
      by (simp add: Let_def del: tx_run.simps(2))
    from "1.IH" [OF refl True this "1.prems"(2)] show ?thesis .
  next
    case False
    with "1.prems" show ?thesis
      by (auto simp: Let_def)
  qed
next
  case (2 g)
  let ?g1 = "g\<lparr>tx_state := (tx_state g)\<lparr>tx_pt := (tx_pt (tx_state g))\<lparr>lc := LC_TX_WAIT\<rparr>\<rparr>\<rparr>"
  obtain c g2 where cond: "tx_wait_condition ?g1 = (c, g2)"
    by fastforce
  note IH = "2.IH" [OF refl refl cond [symmetric] refl]
  from "2.prems" cond show ?case
    by (auto simp: tx_run.simps(2) [of g] Let_def PT_INIT_def
          split: if_splits simp del: tx_run.simps intro: IH)
qed

lemma thread_end_resets_lc:
  assumes "transmitter_thread g0 = Some (r, g)" "r \<noteq> PT_WAITING"
  shows "lc (tx_pt (tx_state g)) = 0"
  using assms
  by (auto simp: transmitter_thread_def Let_def PT_INIT_def split: if_splits option.splits ptr.splits
        dest: tx_run_end_resets_lc simp del: tx_run.simps)

text \<open>
  C4 as stated fails. After one turn on a lossless channel the receiver has acknowledged;
  the clock then moves on by 1000 ms, so that at the transmitter's next turn the
  acknowledgment \<open>ACK_BYTE\<close> is on the channel and the timer has expired. The
  transmitter consumes the acknowledgment, counts a retry and keeps waiting.
\<close>

theorem ack_and_timeout_counterexample:
  "lc (tx_pt (tx_state (after_turns 1 1000 (submission [0xAA, 0xBB, 0xCC])))) = LC_TX_WAIT \<and>
   ack_received (channel (after_turns 1 1000 (submission [0xAA, 0xBB, 0xCC]))) \<and>
   ack_value (channel (after_turns 1 1000 (submission [0xAA, 0xBB, 0xCC]))) = ACK_BYTE \<and>
   timer_expired (system_time_ms (after_turns 1 1000 (submission [0xAA, 0xBB, 0xCC])))
     (timer (tx_state (after_turns 1 1000 (submission [0xAA, 0xBB, 0xCC])))) \<and>
   (case transmitter_thread (after_turns 1 1000 (submission [0xAA, 0xBB, 0xCC])) of
      Some (r, g') \<Rightarrow>
        r = PT_WAITING \<and> \<not> transmission_complete (tx_state g') \<and>
        retry_count (tx_state g') = 1 \<and> \<not> ack_received (channel g')
    | None \<Rightarrow> False)"
  by code_simp

text \<open>
  C4, amended. A transmitter waiting for the acknowledgment, with an acknowledgment on the
  channel and the timer expired in the same turn, takes the timeout path: the
  acknowledgment is consumed, the retry counter goes up by one, and the thread either
  sends the frame again and keeps waiting, or, when the counter has reached
  \<open>MAX_RETRIES\<close>, ends with \<open>PROTOCOL_TIMEOUT\<close>.
\<close>

theorem timeout_before_ack:
  assumes "lc (tx_pt (tx_state g)) = LC_TX_WAIT"
      and "ack_received (channel g)"
      and "timer_expired (system_time_ms g) (timer (tx_state g))"
  shows "\<exists>r g'. transmitter_thread g = Some (r, g') \<and>
           retry_count (tx_state g') = retry_count (tx_state g) + 1 \<and>
           \<not> ack_received (channel g') \<and>
           (if retry_count (tx_state g) + 1 < MAX_RETRIES
            then r = PT_WAITING \<and> lc (tx_pt (tx_state g')) = LC_TX_WAIT \<and>
                 transmission_complete (tx_state g') = transmission_complete (tx_state g) \<and>
                 tx_result (tx_state g') = tx_result (tx_state g) \<and>
                 timer (tx_state g') = timer_set (system_time_ms g) (timer (tx_state g)) TIMEOUT_MS \<and>
                 channel g' = channel_send (message_buffer (tx_state g)) (message_size (tx_state g))
                                ((channel g)\<lparr>ack_received := False\<rparr>)
            else r = PT_ENDED \<and> lc (tx_pt (tx_state g')) = 0 \<and>
                 transmission_complete (tx_state g') \<and>
                 tx_result (tx_state g') = PROTOCOL_TIMEOUT)"
proof -
  let ?g1 = "g\<lparr>channel := (channel g)\<lparr>ack_received := False\<rparr>,
               tx_ack_value := (if ack_received (channel g) then ack_value (channel g)
                                else tx_ack_value g),
               tx_state := (tx_state g)\<lparr>tx_pt := (tx_pt (tx_state g))\<lparr>lc := LC_TX_WAIT\<rparr>,
                                          retry_count := retry_count (tx_state g) + 1\<rparr>\<rparr>"
  from assms(1) have turn: "transmitter_thread g = Some (tx_run TX_WAIT_ACK g)"
    by (simp add: transmitter_thread_def LC_TX_WAIT_def del: tx_run.simps)
  have step: "tx_run TX_WAIT_ACK g = tx_run TX_WHILE ?g1"
    using assms(3) by (rule tx_wait_expired)
  show ?thesis
  proof (cases "retry_count (tx_state g) + 1 < MAX_RETRIES")
    case True
    then have "retry_count (tx_state ?g1) < MAX_RETRIES" "\<not> ack_received (channel ?g1)"
      by simp_all
    from tx_while_sends [OF this] turn step True show ?thesis
      by (simp add: channel_send_def Let_def del: tx_run.simps)
  next
    case False
    then have "\<not> retry_count (tx_state ?g1) < MAX_RETRIES"
      by simp
    from tx_while_gives_up [OF this] turn step False show ?thesis
      by (simp del: tx_run.simps)
  qed
qed

theorem timeout_before_ack_witness:
  "lc (tx_pt (tx_state (after_turns 1 1000 (submission [0x10, 0x20])))) = LC_TX_WAIT \<and>
   ack_received (channel (after_turns 1 1000 (submission [0x10, 0x20]))) \<and>
   timer_expired (system_time_ms (after_turns 1 1000 (submission [0x10, 0x20])))
     (timer (tx_state (after_turns 1 1000 (submission [0x10, 0x20])))) \<and>
   (\<exists>r g'. transmitter_thread (after_turns 1 1000 (submission [0x10, 0x20])) = Some (r, g') \<and>
      retry_count (tx_state g')
        = retry_count (tx_state (after_turns 1 1000 (submission [0x10, 0x20]))) + 1 \<and>
      \<not> ack_received (channel g'))"
proof -
  let ?g = "after_turns 1 1000 (submission [0x10, 0x20])"
  have pre: "lc (tx_pt (tx_state ?g)) = LC_TX_WAIT" "ack_received (channel ?g)"
    "timer_expired (system_time_ms ?g) (timer (tx_state ?g))"
    by code_simp+
  from timeout_before_ack [OF pre] pre show ?thesis
    by blast
qed

text \<open>
  C5 as stated fails. After two turns on a lossless channel the transmission of
  \<open>AA BB CC\<close> is complete with \<open>PROTOCOL_SUCCESS\<close>, and the receiver has read the
  seven bytes of the frame. One more scheduling turn clears \<open>transmission_complete\<close>
  and puts the frame on the channel again.
\<close>

theorem further_turn_counterexample:
  "transmission_complete (tx_state (after_turns 2 0 (submission [0xAA, 0xBB, 0xCC]))) \<and>
   tx_result (tx_state (after_turns 2 0 (submission [0xAA, 0xBB, 0xCC]))) = PROTOCOL_SUCCESS \<and>
   rx_pos (channel (after_turns 2 0 (submission [0xAA, 0xBB, 0xCC]))) = 7 \<and>
   (case protothreads_schedule (after_turns 2 0 (submission [0xAA, 0xBB, 0xCC])) of
      Some g' \<Rightarrow>
        \<not> transmission_complete (tx_state g') \<and> rx_ready (channel g') \<and>
        rx_pos (channel g') = 0 \<and> lc (tx_pt (tx_state g')) = LC_TX_WAIT
    | None \<Rightarrow> False)"
  by code_simp

text \<open>
  C5, amended. A transmitter in a terminal state has \<open>transmission_complete\<close> set and
  its continuation back at 0 (lemma \<open>thread_end_resets_lc\<close>). Its next turn starts the
  thread again: with no acknowledgment on the channel and a message the encoder can
  build, the turn resets the retry counter to 0, clears \<open>transmission_complete\<close>,
  stores the rebuilt message, sends it, arms the timer and waits.
\<close>

theorem terminal_sender_restarts:
  assumes "lc (tx_pt (tx_state g)) = 0"
      and "transmission_complete (tx_state g)"
      and "\<not> ack_received (channel g)"
      and "protocol_create_message (data_to_send (tx_state g)) (data_size (tx_state g))
             (Ptr (message_buffer (tx_state g))) (Ptr (of_nat (MAX_DATA_SIZE + 10)))
           = Some (PROTOCOL_SUCCESS, Ptr buf, Ptr sz)"
  shows "\<exists>g'. transmitter_thread g = Some (PT_WAITING, g') \<and>
           \<not> transmission_complete (tx_state g') \<and>
           retry_count (tx_state g') = 0 \<and>
           lc (tx_pt (tx_state g')) = LC_TX_WAIT \<and>
           message_buffer (tx_state g') = buf \<and> message_size (tx_state g') = sz \<and>
           channel g' = channel_send buf sz (channel g) \<and>
           timer (tx_state g') = timer_set (system_time_ms g) (timer (tx_state g)) TIMEOUT_MS"
proof -
  let ?g2 = "g\<lparr>tx_state := (tx_state g)\<lparr>retry_count := 0, transmission_complete := False,
                                          message_size := of_nat (MAX_DATA_SIZE + 10),
                                          message_buffer := buf, message_size := sz,
                                          tx_result := PROTOCOL_SUCCESS\<rparr>\<rparr>"
  from assms(1,4) have turn: "transmitter_thread g = Some (tx_run TX_WHILE ?g2)"
    by (simp add: transmitter_thread_def Let_def del: tx_run.simps of_nat_add)
  have "retry_count (tx_state ?g2) < MAX_RETRIES" "\<not> ack_received (channel ?g2)"
    using assms(3) by (simp_all add: MAX_RETRIES_def)
  from tx_while_sends [OF this] turn show ?thesis
    by (simp del: tx_run.simps)
qed

theorem terminal_sender_restarts_witness:
  "lc (tx_pt (tx_state (after_turns 2 0 (submission [0x10, 0x20])))) = 0 \<and>
   transmission_complete (tx_state (after_turns 2 0 (submission [0x10, 0x20]))) \<and>
   \<not> ack_received (channel (after_turns 2 0 (submission [0x10, 0x20]))) \<and>
   (\<exists>g'. transmitter_thread (after_turns 2 0 (submission [0x10, 0x20])) = Some (PT_WAITING, g') \<and>
      \<not> transmission_complete (tx_state g') \<and>
      message_size (tx_state g') = 7)"
proof -
  let ?g = "after_turns 2 0 (submission [0x10, 0x20])"
  have pre: "lc (tx_pt (tx_state ?g)) = 0" "transmission_complete (tx_state ?g)"
    "\<not> ack_received (channel ?g)"
    by code_simp+
  have build: "protocol_create_message (data_to_send (tx_state ?g)) (data_size (tx_state ?g))
             (Ptr (message_buffer (tx_state ?g))) (Ptr (of_nat (MAX_DATA_SIZE + 10)))
           = Some (PROTOCOL_SUCCESS, Ptr (message_buffer (tx_state ?g)), Ptr 7)"
    by code_simp
  from terminal_sender_restarts [OF pre build] pre show ?thesis
    by blast
qed

text \<open>
  C6 as stated fails on the receiver of t4: the frame \<open>02 00 00 03\<close>, whose declared
  length is 0, is answered with a negative acknowledgment on the channel.
\<close>

theorem zero_length_frame_counterexample:
  "ack_received
     (channel (snd (receiver_thread
        ((protothreads_init globals_at_start)
           \<lparr>channel := channel_send [0x02, 0, 0, 0x03] 4
                         (channel (protothreads_init globals_at_start))\<rparr>)))) \<and>
   ack_value
     (channel (snd (receiver_thread
        ((protothreads_init globals_at_start)
           \<lparr>channel := channel_send [0x02, 0, 0, 0x03] 4
                         (channel (protothreads_init globals_at_start))\<rparr>)))) = NACK_BYTE"
  by code_simp

lemma zero_length_nack:
  assumes "\<not> simulate_loss (channel g)"
  shows "ack_received (channel (snd (rx_run RX_AT_STX
             (g\<lparr>channel := channel_send [STX_BYTE, 0, c, e] 4 (channel g)\<rparr>)))) \<and>
         ack_value (channel (snd (rx_run RX_AT_STX
             (g\<lparr>channel := channel_send [STX_BYTE, 0, c, e] 4 (channel g)\<rparr>)))) = NACK_BYTE \<and>
         \<not> message_received (rx_state (snd (rx_run RX_AT_STX
             (g\<lparr>channel := channel_send [STX_BYTE, 0, c, e] 4 (channel g)\<rparr>))))"
proof (cases "c = STX_BYTE")
  case False
  with assms show ?thesis
    by (simp add: rx_receive_def channel_receive_byte_def channel_send_def channel_send_ack_def
          Let_def word_less_nat_alt word_le_nat_alt)
next
  case True
  show ?thesis
  proof (cases "e = 0")
    case e: True
    with True assms show ?thesis
      by (simp add: rx_receive_def channel_receive_byte_def channel_send_def channel_send_ack_def
            Let_def word_less_nat_alt word_le_nat_alt)
  next
    case e: False
    then have "0 < e"
      by (simp add: word_neq_0_conv)
    with e True assms show ?thesis
      by (simp add: rx_receive_def channel_receive_byte_def channel_send_def channel_send_ack_def
            Let_def word_less_nat_alt word_le_nat_alt)
  qed
qed

lemma zero_length_resumes:
  assumes "\<not> simulate_loss (channel g)"
  shows "fst (rx_run RX_AT_STX
             (g\<lparr>channel := channel_send [STX_BYTE, 0, c, e] 4 (channel g)\<rparr>)) = PT_WAITING \<and>
         (if c = STX_BYTE \<and> e \<noteq> 0
          then state (rx_state (snd (rx_run RX_AT_STX
                 (g\<lparr>channel := channel_send [STX_BYTE, 0, c, e] 4 (channel g)\<rparr>)))) = RX_WAIT_DATA \<and>
               lc (rx_pt (rx_state (snd (rx_run RX_AT_STX
                 (g\<lparr>channel := channel_send [STX_BYTE, 0, c, e] 4 (channel g)\<rparr>))))) = LC_RX_DATA \<and>
               expected_size (rx_state (snd (rx_run RX_AT_STX
                 (g\<lparr>channel := channel_send [STX_BYTE, 0, c, e] 4 (channel g)\<rparr>)))) = e
          else state (rx_state (snd (rx_run RX_AT_STX
                 (g\<lparr>channel := channel_send [STX_BYTE, 0, c, e] 4 (channel g)\<rparr>)))) = RX_WAIT_STX \<and>
               lc (rx_pt (rx_state (snd (rx_run RX_AT_STX
                 (g\<lparr>channel := channel_send [STX_BYTE, 0, c, e] 4 (channel g)\<rparr>))))) = LC_RX_STX)"
proof (cases "c = STX_BYTE")
  case False
  with assms show ?thesis
    by (simp add: rx_receive_def channel_receive_byte_def channel_send_def channel_send_ack_def
          Let_def word_less_nat_alt word_le_nat_alt)
next
  case True
  show ?thesis
  proof (cases "e = 0")
    case e: True
    with True assms show ?thesis
      by (simp add: rx_receive_def channel_receive_byte_def channel_send_def channel_send_ack_def
            Let_def word_less_nat_alt word_le_nat_alt)
  next
    case e: False
    then have "0 < e"
      by (simp add: word_neq_0_conv)
    with e True assms show ?thesis
      by (simp add: rx_receive_def channel_receive_byte_def channel_send_def channel_send_ack_def
            Let_def word_less_nat_alt word_le_nat_alt)
  qed
qed

lemma parked_receiver_is_silent:
  "lc (rx_pt (rx_state g)) = LC_RX_YIELD \<Longrightarrow> receiver_thread g = (PT_YIELDED, g)"
  by (simp add: receiver_thread_def LC_RX_YIELD_def LC_RX_STX_def LC_RX_QTD_def LC_RX_DATA_def
        LC_RX_CHK_def LC_RX_ETX_def del: rx_run.simps)

text \<open>
  C6, amended. On a length byte of 0 the parser of t3 goes back to \<open>ST_STX\<close> and
  returns \<open>PROTOCOL_WAITING\<close>, neither \<open>PROTOCOL_SUCCESS\<close> nor
  \<open>PROTOCOL_ERROR\<close>. The receiver of t4 is taken before its first turn or at its
  wait for a start marker, on a channel that does not simulate loss, when the frame
  \<open>STX, 0, c, e\<close> is sent. In its turn it sends a negative acknowledgment, reports no
  message and goes back to waiting for a start marker: the turn returns \<open>PT_WAITING\<close>
  in that wait, unless \<open>c\<close> is itself a start marker followed by a non-zero length
  \<open>e\<close>, which the receiver takes as the opening of the next frame, whose data it then
  awaits.
\<close>

theorem zero_length_frame:
  assumes "wired h" "current_state h = ST_QTD"
      and "lc (rx_pt (rx_state g)) = 0 \<or> lc (rx_pt (rx_state g)) = LC_RX_STX"
      and "\<not> simulate_loss (channel g)"
  shows "protocol_process_byte (Ptr h) 0
           = (PROTOCOL_WAITING, Ptr (h\<lparr>current_state := ST_STX, last_result := PROTOCOL_WAITING\<rparr>)) \<and>
         ack_received (channel (snd (receiver_thread
             (g\<lparr>channel := channel_send [STX_BYTE, 0, c, e] 4 (channel g)\<rparr>)))) \<and>
         ack_value (channel (snd (receiver_thread
             (g\<lparr>channel := channel_send [STX_BYTE, 0, c, e] 4 (channel g)\<rparr>)))) = NACK_BYTE \<and>
         \<not> message_received (rx_state (snd (receiver_thread
             (g\<lparr>channel := channel_send [STX_BYTE, 0, c, e] 4 (channel g)\<rparr>)))) \<and>
         fst (receiver_thread
             (g\<lparr>channel := channel_send [STX_BYTE, 0, c, e] 4 (channel g)\<rparr>)) = PT_WAITING \<and>
         (if c = STX_BYTE \<and> e \<noteq> 0
          then state (rx_state (snd (receiver_thread
                 (g\<lparr>channel := channel_send [STX_BYTE, 0, c, e] 4 (channel g)\<rparr>)))) = RX_WAIT_DATA \<and>
               lc (rx_pt (rx_state (snd (receiver_thread
                 (g\<lparr>channel := channel_send [STX_BYTE, 0, c, e] 4 (channel g)\<rparr>))))) = LC_RX_DATA \<and>
               expected_size (rx_state (snd (receiver_thread
                 (g\<lparr>channel := channel_send [STX_BYTE, 0, c, e] 4 (channel g)\<rparr>)))) = e
          else state (rx_state (snd (receiver_thread
                 (g\<lparr>channel := channel_send [STX_BYTE, 0, c, e] 4 (channel g)\<rparr>)))) = RX_WAIT_STX \<and>
               lc (rx_pt (rx_state (snd (receiver_thread
                 (g\<lparr>channel := channel_send [STX_BYTE, 0, c, e] 4 (channel g)\<rparr>))))) = LC_RX_STX)"
proof -
  let ?gc = "g\<lparr>channel := channel_send [STX_BYTE, 0, c, e] 4 (channel g)\<rparr>"
  let ?reset = "(rx_state g)\<lparr>state := RX_WAIT_STX, rx_count := 0, rx_checksum_calc := 0,
                             message_received := False\<rparr>"
  have parser: "protocol_process_byte (Ptr h) 0
      = (PROTOCOL_WAITING, Ptr (h\<lparr>current_state := ST_STX, last_result := PROTOCOL_WAITING\<rparr>))"
    using assms(1,2) by (simp add: step_qtd)
  let ?gr = "g\<lparr>rx_state := ?reset\<rparr>"
  let ?sent = "channel_send [STX_BYTE, 0, c, e] 4 (channel g)"
  have swap: "g\<lparr>channel := ?sent, rx_state := ?reset\<rparr>
      = ?gr\<lparr>channel := channel_send [STX_BYTE, 0, c, e] 4 (channel ?gr)\<rparr>"
    by (cases g) simp
  from assms(3) show ?thesis
  proof
    assume "lc (rx_pt (rx_state g)) = 0"
    then have "receiver_thread ?gc = rx_run RX_AT_STX (g\<lparr>channel := ?sent, rx_state := ?reset\<rparr>)"
      by (simp add: receiver_thread_def del: rx_run.simps(2))
    then have turn: "receiver_thread ?gc
        = rx_run RX_AT_STX (?gr\<lparr>channel := channel_send [STX_BYTE, 0, c, e] 4 (channel ?gr)\<rparr>)"
      by (simp only: swap)
    have loss: "\<not> simulate_loss (channel ?gr)"
      using assms(4) by simp
    show ?thesis
      unfolding turn
      using parser zero_length_nack [OF loss, of c e] zero_length_resumes [OF loss, of c e]
      by blast
  next
    assume "lc (rx_pt (rx_state g)) = LC_RX_STX"
    then have turn: "receiver_thread ?gc = rx_run RX_AT_STX ?gc"
      by (simp add: receiver_thread_def LC_RX_STX_def del: rx_run.simps)
    show ?thesis
      unfolding turn
      using parser zero_length_nack [OF assms(4), of c e] zero_length_resumes [OF assms(4), of c e]
      by blast
  qed
qed

theorem zero_length_frame_witness:
  "wired (deref (snd (process_bytes (protocol_init (Ptr blank_handler)) [0x02]))) \<and>
   current_state (deref (snd (process_bytes (protocol_init (Ptr blank_handler)) [0x02]))) = ST_QTD \<and>
   lc (rx_pt (rx_state (protothreads_init globals_at_start))) = 0 \<and>
   \<not> simulate_loss (channel (protothreads_init globals_at_start)) \<and>
   fst (protocol_process_byte
          (Ptr (deref (snd (process_bytes (protocol_init (Ptr blank_handler)) [0x02])))) 0)
     = PROTOCOL_WAITING \<and>
   ack_received (channel (snd (receiver_thread
       ((protothreads_init globals_at_start)
          \<lparr>channel := channel_send [STX_BYTE, 0, 0, 0x03] 4
                        (channel (protothreads_init globals_at_start))\<rparr>)))) \<and>
   ack_value (channel (snd (receiver_thread
       ((protothreads_init globals_at_start)
          \<lparr>channel := channel_send [STX_BYTE, 0, 0, 0x03] 4
                        (channel (protothreads_init globals_at_start))\<rparr>)))) = NACK_BYTE \<and>
   fst (receiver_thread
       ((protothreads_init globals_at_start)
          \<lparr>channel := channel_send [STX_BYTE, 0, 0, 0x03] 4
                        (channel (protothreads_init globals_at_start))\<rparr>)) = PT_WAITING \<and>
   state (rx_state (snd (receiver_thread
       ((protothreads_init globals_at_start)
          \<lparr>channel := channel_send [STX_BYTE, 0, 0, 0x03] 4
                        (channel (protothreads_init globals_at_start))\<rparr>)))) = RX_WAIT_STX \<and>
   lc (rx_pt (rx_state (snd (receiver_thread
       ((protothreads_init globals_at_start)
          \<lparr>channel := channel_send [STX_BYTE, 0, 0, 0x03] 4
                        (channel (protothreads_init globals_at_start))\<rparr>))))) = LC_RX_STX"
proof -
  let ?h = "deref (snd (process_bytes (protocol_init (Ptr blank_handler)) [0x02]))"
  let ?g = "protothreads_init globals_at_start"
  have h: "wired ?h" "current_state ?h = ST_QTD"
    by (simp_all add: wired_def protocol_init_def protocol_process_byte_def state_wait_stx_def
          STX_BYTE_def)
  have g: "lc (rx_pt (rx_state ?g)) = 0" "\<not> simulate_loss (channel ?g)"
    by (simp_all add: protothreads_init_def PT_INIT_def channel_reset_def)
  from g(1) have "lc (rx_pt (rx_state ?g)) = 0 \<or> lc (rx_pt (rx_state ?g)) = LC_RX_STX"
    by simp
  moreover have "(0 :: uint8_t) \<noteq> STX_BYTE"
    by (simp add: STX_BYTE_def)
  ultimately show ?thesis
    using zero_length_frame [OF h _ g(2), of 0 3] h g by simp
qed

section \<open>A channel that drops every transmission\<close>

lemma channel_send_lost:
  "simulate_loss ch \<Longrightarrow> channel_send b s ch = ch\<lparr>tx_ready := False\<rparr>"
  by (simp add: channel_send_def)

lemma timer_runs_out:
  "1000 \<le> ms \<Longrightarrow> timer_expired (now + ms) (timer_set now tm TIMEOUT_MS)"
  by (simp add: timer_expired_def timer_set_def TIMEOUT_MS_def)

lemma awaiting_retry:
  assumes "awaiting k g" "k + 1 < MAX_RETRIES" "1000 \<le> ms"
  shows "\<exists>g'. protothreads_schedule g = Some g' \<and> \<not> transmission_complete (tx_state g') \<and>
           awaiting (k + 1) (advance_time ms g')"
proof -
  let ?g1 = "g\<lparr>channel := (channel g)\<lparr>ack_received := False\<rparr>,
               tx_ack_value := (if ack_received (channel g) then ack_value (channel g)
                                else tx_ack_value g),
               tx_state := (tx_state g)\<lparr>tx_pt := (tx_pt (tx_state g))\<lparr>lc := LC_TX_WAIT\<rparr>,
                                          retry_count := retry_count (tx_state g) + 1\<rparr>\<rparr>"
  from assms(1) have turn: "transmitter_thread g = Some (tx_run TX_WAIT_ACK g)"
    by (simp add: awaiting_def transmitter_thread_def LC_TX_WAIT_def del: tx_run.simps)
  from assms(1) have step: "tx_run TX_WAIT_ACK g = tx_run TX_WHILE ?g1"
    by (simp add: awaiting_def tx_wait_expired del: tx_run.simps)
  from assms(1,2) have "retry_count (tx_state ?g1) < MAX_RETRIES" "\<not> ack_received (channel ?g1)"
    by (simp_all add: awaiting_def)
  note sent = tx_while_sends [OF this]
  let ?g2 = "snd (tx_run TX_WHILE ?g1)"
  have tx: "transmitter_thread g = Some (PT_WAITING, ?g2)"
    using turn step sent by (simp del: tx_run.simps)
  have g2: "lc (tx_pt (tx_state ?g2)) = LC_TX_WAIT" "retry_count (tx_state ?g2) = k + 1"
    "\<not> transmission_complete (tx_state ?g2)" "simulate_loss (channel ?g2)"
    "\<not> rx_ready (channel ?g2)" "\<not> ack_received (channel ?g2)"
    "timer (tx_state ?g2) = timer_set (system_time_ms g) (timer (tx_state g)) TIMEOUT_MS"
    "system_time_ms ?g2 = system_time_ms g"
    using assms(1) sent by (simp_all add: awaiting_def channel_send_lost del: tx_run.simps)
  from receiver_idle [OF g2(5)] g2 tx assms(3) show ?thesis
    by (simp add: protothreads_schedule_def awaiting_def advance_time_def timer_runs_out
          del: tx_run.simps)
qed

lemma awaiting_last:
  assumes "awaiting k g" "\<not> k + 1 < MAX_RETRIES"
  shows "\<exists>g'. protothreads_schedule g = Some g' \<and> transmission_complete (tx_state g') \<and>
           tx_result (tx_state g') = PROTOCOL_TIMEOUT \<and> retry_count (tx_state g') = k + 1"
proof -
  let ?g1 = "g\<lparr>channel := (channel g)\<lparr>ack_received := False\<rparr>,
               tx_ack_value := (if ack_received (channel g) then ack_value (channel g)
                                else tx_ack_value g),
               tx_state := (tx_state g)\<lparr>tx_pt := (tx_pt (tx_state g))\<lparr>lc := LC_TX_WAIT\<rparr>,
                                          retry_count := retry_count (tx_state g) + 1\<rparr>\<rparr>"
  from assms(1) have turn: "transmitter_thread g = Some (tx_run TX_WAIT_ACK g)"
    by (simp add: awaiting_def transmitter_thread_def LC_TX_WAIT_def del: tx_run.simps)
  from assms(1) have step: "tx_run TX_WAIT_ACK g = tx_run TX_WHILE ?g1"
    by (simp add: awaiting_def tx_wait_expired del: tx_run.simps)
  from assms have "\<not> retry_count (tx_state ?g1) < MAX_RETRIES"
    by (simp add: awaiting_def)
  note ended = tx_while_gives_up [OF this]
  let ?g2 = "snd (tx_run TX_WHILE ?g1)"
  have tx: "transmitter_thread g = Some (PT_ENDED, ?g2)"
    using turn step ended by (simp del: tx_run.simps)
  have g2: "transmission_complete (tx_state ?g2)" "tx_result (tx_state ?g2) = PROTOCOL_TIMEOUT"
    "retry_count (tx_state ?g2) = k + 1" "\<not> rx_ready (channel ?g2)"
    using assms(1) ended by (simp_all add: awaiting_def del: tx_run.simps)
  from receiver_idle [OF g2(4)] g2 tx show ?thesis
    by (simp add: protothreads_schedule_def del: tx_run.simps)
qed

lemma lossy_first_turn:
  assumes "payload \<noteq> []" "length payload \<le> 5" "1000 \<le> ms"
  shows "\<exists>g'. protothreads_schedule (lossy_submission payload) = Some g' \<and>
           \<not> transmission_complete (tx_state g') \<and> awaiting 0 (advance_time ms g')"
proof -
  let ?g = "lossy_submission payload"
  let ?q = "of_nat (length payload) :: uint8_t"
  have q: "unat ?q = length payload"
    using assms(2) by (simp add: unat_of_nat)
  then have "5 + ?q \<le> 10"
    using assms(2) by (simp add: word_le_nat_alt unat_word_ariths)
  with create_message_frame [OF assms(1), of "replicate (MAX_DATA_SIZE + 10) 0" 10] assms(2)
  obtain buf where build:
    "protocol_create_message (Ptr payload) ?q (Ptr (replicate (MAX_DATA_SIZE + 10) 0)) (Ptr 10)
       = Some (PROTOCOL_SUCCESS, Ptr buf, Ptr (5 + ?q))"
    by (auto simp: MAX_DATA_SIZE_def)
  have nz: "?q \<noteq> 0"
    using q assms(1) by (metis length_0_conv unat_0)
  have g: "lc (tx_pt (tx_state ?g)) = 0" "data_to_send (tx_state ?g) = Ptr payload"
    "data_size (tx_state ?g) = ?q" "message_buffer (tx_state ?g) = replicate (MAX_DATA_SIZE + 10) 0"
    "simulate_loss (channel ?g)" "\<not> rx_ready (channel ?g)" "\<not> ack_received (channel ?g)"
    using nz
    by (simp_all add: lossy_submission_def submission_def protothreads_send_data_def
          protothreads_init_def globals_at_start_def channel_reset_def PT_INIT_def Let_def)
  let ?g2 = "?g\<lparr>tx_state := (tx_state ?g)\<lparr>retry_count := 0, transmission_complete := False,
                                            message_size := of_nat (MAX_DATA_SIZE + 10),
                                            message_buffer := buf, message_size := 5 + ?q,
                                            tx_result := PROTOCOL_SUCCESS\<rparr>\<rparr>"
  from g build have turn: "transmitter_thread ?g = Some (tx_run TX_WHILE ?g2)"
    by (simp add: transmitter_thread_def sizeof_message_buffer Let_def del: tx_run.simps of_nat_add)
  have "retry_count (tx_state ?g2) < MAX_RETRIES" "\<not> ack_received (channel ?g2)"
    using g by (simp_all add: MAX_RETRIES_def)
  note sent = tx_while_sends [OF this]
  let ?g3 = "snd (tx_run TX_WHILE ?g2)"
  have tx: "transmitter_thread ?g = Some (PT_WAITING, ?g3)"
    using turn sent by (simp del: tx_run.simps)
  have g3: "lc (tx_pt (tx_state ?g3)) = LC_TX_WAIT" "retry_count (tx_state ?g3) = 0"
    "\<not> transmission_complete (tx_state ?g3)" "simulate_loss (channel ?g3)"
    "\<not> rx_ready (channel ?g3)" "\<not> ack_received (channel ?g3)"
    "timer (tx_state ?g3) = timer_set (system_time_ms ?g) (timer (tx_state ?g)) TIMEOUT_MS"
    "system_time_ms ?g3 = system_time_ms ?g"
    using g sent by (simp_all add: channel_send_lost del: tx_run.simps)
  from receiver_idle [OF g3(5)] g3 tx assms(3) show ?thesis
    by (simp add: protothreads_schedule_def awaiting_def advance_time_def timer_runs_out
          del: tx_run.simps)
qed

text \<open>
  For comparison with C3: a payload of at most five bytes on a channel that drops every
  transmission, the clock moving on by at least the timeout after every turn. The
  transmission is not complete after one, two or three turns and is complete after the
  fourth, with \<open>PROTOCOL_TIMEOUT\<close> and a retry counter of \<open>MAX_RETRIES\<close>.
\<close>

lemma short_payload_times_out:
  assumes "payload \<noteq> []" "length payload \<le> 5" "1000 \<le> ms"
  shows "\<exists>g1 g2 g3 g4.
           schedule_loop 1 ms (lossy_submission payload) = Some g1 \<and>
           \<not> transmission_complete (tx_state g1) \<and> retry_count (tx_state g1) = 0 \<and>
           schedule_loop 2 ms (lossy_submission payload) = Some g2 \<and>
           \<not> transmission_complete (tx_state g2) \<and> retry_count (tx_state g2) = 1 \<and>
           schedule_loop 3 ms (lossy_submission payload) = Some g3 \<and>
           \<not> transmission_complete (tx_state g3) \<and> retry_count (tx_state g3) = 2 \<and>
           schedule_loop 4 ms (lossy_submission payload) = Some g4 \<and>
           transmission_complete (tx_state g4) \<and> retry_count (tx_state g4) = MAX_RETRIES \<and>
           tx_result (tx_state g4) = PROTOCOL_TIMEOUT"
proof -
  from lossy_first_turn [OF assms] obtain a where
    a: "protothreads_schedule (lossy_submission payload) = Some a"
      "\<not> transmission_complete (tx_state a)" "awaiting 0 (advance_time ms a)"
    by blast
  from awaiting_retry [OF a(3) _ assms(3)] obtain b where
    b: "protothreads_schedule (advance_time ms a) = Some b"
      "\<not> transmission_complete (tx_state b)" "awaiting 1 (advance_time ms b)"
    by (auto simp: MAX_RETRIES_def)
  from awaiting_retry [OF b(3) _ assms(3)] obtain c where
    c: "protothreads_schedule (advance_time ms b) = Some c"
      "\<not> transmission_complete (tx_state c)" "awaiting 2 (advance_time ms c)"
    by (auto simp: MAX_RETRIES_def)
  from awaiting_last [OF c(3)] obtain d where
    d: "protothreads_schedule (advance_time ms c) = Some d" "transmission_complete (tx_state d)"
      "tx_result (tx_state d) = PROTOCOL_TIMEOUT" "retry_count (tx_state d) = 3"
    by (auto simp: MAX_RETRIES_def)
  have adv: "transmission_complete (tx_state (advance_time ms x)) = transmission_complete (tx_state x)"
    "retry_count (tx_state (advance_time ms x)) = retry_count (tx_state x)"
    "tx_result (tx_state (advance_time ms x)) = tx_result (tx_state x)" for x
    by (simp_all add: advance_time_def)
  from a b c d show ?thesis
    using a(3) b(3) c(3)
    by (simp add: adv awaiting_def numeral_eq_Suc MAX_RETRIES_def)
qed

end
